theory Spec2Isabelle
  imports Main "HOL-Library.Sublist" "HOL-Library.AList"
begin

section \<open>Python values used by \<open>scripts/release.py\<close>\<close>

text \<open>
  The version document and the credentials document are whatever \<open>json.load\<close> returns:
  nested dictionaries, lists, strings, integers, booleans and \<open>None\<close>. A dictionary is an
  association list (Python keeps insertion order, and \<open>json.dump\<close> writes in that order);
  lookup takes the first binding of a key and assignment replaces it in place, appending
  a key that is new. JSON numbers with a fraction or an exponent (Python floats) are not
  part of the model. Strings are byte strings: the UTF-8 encoding of the Python text.
\<close>

datatype json =
    JNull
  | JBool bool
  | JInt int
  | JStr string
  | JArr "json list"
  | JObj "(string \<times> json) list"

datatype exn =
    SystemExit int
  | FileNotFoundError string
  | KeyError string
  | TypeError
  | ValueError
  | OSError string

text \<open>\<open>d[k]\<close> for a string key \<open>k\<close>.\<close>

fun getitem :: "json \<Rightarrow> string \<Rightarrow> exn + json" where
  "getitem (JObj kvs) k = (case map_of kvs k of None \<Rightarrow> Inl (KeyError k) | Some v \<Rightarrow> Inr v)"
| "getitem _ k = Inl TypeError"

text \<open>\<open>d[k] = v\<close> for a string key \<open>k\<close>; the result is the dictionary after the assignment.\<close>

fun setitem :: "json \<Rightarrow> string \<Rightarrow> json \<Rightarrow> exn + json" where
  "setitem (JObj kvs) k v = Inr (JObj (AList.update k v kvs))"
| "setitem _ k v = Inl TypeError"

text \<open>\<open>k in d\<close> for a string \<open>k\<close>: key of a dictionary, element of a list, substring of a string.\<close>

fun py_in :: "string \<Rightarrow> json \<Rightarrow> exn + bool" where
  "py_in k (JObj kvs) = Inr (k \<in> fst ` set kvs)"
| "py_in k (JArr xs) = Inr (JStr k \<in> set xs)"
| "py_in k (JStr s) = Inr (sublist k s)"
| "py_in k _ = Inl TypeError"

text \<open>\<open>x + 1\<close>: integers add, booleans count as 0 and 1, everything else raises.\<close>

fun py_add1 :: "json \<Rightarrow> exn + json" where
  "py_add1 (JInt n) = Inr (JInt (n + 1))"
| "py_add1 (JBool b) = Inr (JInt ((if b then 1 else 0) + 1))"
| "py_add1 _ = Inl TypeError"

subsection \<open>Text\<close>

definition newline :: string where
  "newline = [CHR 0x0A]"

definition dquote :: string where
  "dquote = [CHR 0x22]"

function str_nat :: "nat \<Rightarrow> string" where
  "str_nat n = (if n < 10 then [''0123456789'' ! n]
                else str_nat (n div 10) @ [''0123456789'' ! (n mod 10)])"
  by pat_completeness auto
termination
  by (relation "measure id") auto

definition str_int :: "int \<Rightarrow> string" where
  "str_int i = (if i < 0 then ''-'' @ str_nat (nat (- i)) else str_nat (nat i))"

fun join :: "string \<Rightarrow> string list \<Rightarrow> string" where
  "join sep [] = []"
| "join sep [x] = x"
| "join sep (x # y # ys) = x @ sep @ join sep (y # ys)"

text \<open>
  \<open>repr\<close> of a string: single quotes unless the text has a single quote and no double
  quote; the quote and the backslash are escaped, tab, line feed and carriage return are
  written \<open>\t\<close>, \<open>\n\<close>, \<open>\r\<close>, other control characters as \<open>\xhh\<close>. Bytes from
  \<open>0x80\<close> on are copied: they stand for printable characters.
\<close>

definition hex2 :: "nat \<Rightarrow> string" where
  "hex2 n = [''0123456789abcdef'' ! (n div 16), ''0123456789abcdef'' ! (n mod 16)]"

definition repr_char :: "char \<Rightarrow> char \<Rightarrow> string" where
  "repr_char q c =
     (if c = q \<or> c = CHR 0x5C then [CHR 0x5C, c]
      else if c = CHR 0x09 then [CHR 0x5C, CHR ''t'']
      else if c = CHR 0x0A then [CHR 0x5C, CHR ''n'']
      else if c = CHR 0x0D then [CHR 0x5C, CHR ''r'']
      else if of_char c < (32 :: nat) \<or> c = CHR 0x7F
        then [CHR 0x5C, CHR ''x''] @ hex2 (of_char c)
      else [c])"

definition repr_str :: "string \<Rightarrow> string" where
  "repr_str s =
     (let q = (if CHR 0x27 \<in> set s \<and> CHR 0x22 \<notin> set s then CHR 0x22 else CHR 0x27)
      in [q] @ concat (map (repr_char q) s) @ [q])"

fun py_repr :: "json \<Rightarrow> string" where
  "py_repr JNull = ''None''"
| "py_repr (JBool b) = (if b then ''True'' else ''False'')"
| "py_repr (JInt n) = str_int n"
| "py_repr (JStr s) = repr_str s"
| "py_repr (JArr xs) = ''['' @ join '', '' (map py_repr xs) @ '']''"
| "py_repr (JObj kvs) =
     ''{'' @ join '', '' (map (\<lambda>(k, v). repr_str k @ '': '' @ py_repr v) kvs) @ ''}''"

text \<open>\<open>str(x)\<close>, which is what an f-string writes for \<open>{x}\<close>.\<close>

fun py_str :: "json \<Rightarrow> string" where
  "py_str (JStr s) = s"
| "py_str v = py_repr v"

text \<open>\<open>f.readlines()\<close>: the text cut after every line feed, the line feeds kept.\<close>

fun readlines :: "string \<Rightarrow> string list" where
  "readlines [] = []"
| "readlines (c # cs) =
     (if c = CHR 0x0A then [c] # readlines cs
      else (case readlines cs of [] \<Rightarrow> [[c]] | l # ls \<Rightarrow> (c # l) # ls))"

definition startswith :: "string \<Rightarrow> string \<Rightarrow> bool" where
  "startswith line p = prefix p line"

text \<open>\<open>p in line\<close> on two strings.\<close>

definition contains :: "string \<Rightarrow> string \<Rightarrow> bool" where
  "contains p line = sublist p line"

section \<open>The world of the script\<close>

text \<open>
  The files the script touches, each with the content the program sees: the two JSON
  files as the value \<open>json.load\<close> returns (\<open>json.dump\<close> followed by \<open>json.load\<close> gives the
  value back), the text files as their text, \<open>None\<close> for a file that is absent. The text
  is what Python's text mode hands to the program: every line ends with a line feed.
  Files that hold something else than a JSON document or cannot be opened are not
  modelled.
  \<open>other_paths\<close> says which other paths exist (the build artifacts).
\<close>

record fs =
  version_json :: "json option"
  changelog_md :: "string option"
  pubspec_yaml :: "string option"
  codemagic_yaml :: "string option"
  credentials_json :: "json option"
  other_paths :: "string \<Rightarrow> bool"

text \<open>What the script does to the outside, in order.\<close>

datatype event =
    Exists string
  | Read string
  | Write string
  | Append string
  | Run "string list" bool
  | Print string

record world =
  files :: fs
  trace :: "event list"

text \<open>The value \<open>subprocess.run\<close> returns.\<close>

record completed =
  returncode :: int
  stdout :: string
  stderr :: string

text \<open>
  What the outside answers. Both answers may differ from one call to the next, so they
  take the number of events so far. \<open>now\<close> is \<open>datetime.now().strftime('%Y-%m-%d')\<close>.
  \<open>process\<close> is the external program behind \<open>subprocess.run(cmd, shell=b)\<close>: it may
  change any file, and it either cannot be started (an exception) or completes with
  an exit code and its captured output.
\<close>

record env =
  now :: "nat \<Rightarrow> string"
  process :: "nat \<Rightarrow> string list \<Rightarrow> bool \<Rightarrow> fs \<Rightarrow> (exn + completed) \<times> fs"

type_synonym 'a action = "world \<Rightarrow> (exn + 'a) \<times> world"

text \<open>Sequencing: an exception ends the run and keeps the world as it is by then.\<close>

definition seq :: "'a action \<Rightarrow> ('a \<Rightarrow> 'b action) \<Rightarrow> 'b action" where
  "seq m f w = (case m w of (Inl e, w1) \<Rightarrow> (Inl e, w1) | (Inr a, w1) \<Rightarrow> f a w1)"

definition ret :: "'a \<Rightarrow> 'a action" where
  "ret a w = (Inr a, w)"

definition py_raise :: "exn \<Rightarrow> 'a action" where
  "py_raise e w = (Inl e, w)"

definition lift :: "exn + 'a \<Rightarrow> 'a action" where
  "lift r w = (r, w)"

definition emit :: "event \<Rightarrow> unit action" where
  "emit ev w = (Inr (), w\<lparr>trace := trace w @ [ev]\<rparr>)"

definition py_print :: "string \<Rightarrow> unit action" where
  "py_print s = emit (Print s)"

text \<open>\<open>sys.exit(n)\<close>.\<close>

definition sys_exit :: "int \<Rightarrow> 'a action" where
  "sys_exit n = py_raise (SystemExit n)"

text \<open>
  \<open>subprocess.run(cmd, capture_output=True, text=True, shell=b)\<close>. Every element of
  \<open>cmd\<close> has to be a string, or no process is started.
\<close>

fun arg_str :: "json \<Rightarrow> string option" where
  "arg_str (JStr s) = Some s"
| "arg_str _ = None"

definition subprocess_run :: "env \<Rightarrow> json list \<Rightarrow> bool \<Rightarrow> completed action" where
  "subprocess_run E cmd shell w =
     (if None \<in> set (map arg_str cmd) then (Inl TypeError, w)
      else
        let argv = map (\<lambda>a. the (arg_str a)) cmd;
            (r, f) = process E (length (trace w)) argv shell (files w)
        in (r, \<lparr>files = f, trace = trace w @ [Run argv shell]\<rparr>))"

section \<open>The script\<close>

definition SUPPORTED_FLAVORS :: "string list" where
  "SUPPORTED_FLAVORS = [''workplacebyls'', ''workplacebytsphub'', ''tiabytsp'']"

definition SUPPORTED_PLATFORMS :: "string list" where
  "SUPPORTED_PLATFORMS = [''android'', ''ios'']"

definition VERSION_FILE_PATH :: string where
  "VERSION_FILE_PATH = ''version.json''"

definition CHANGELOG_FILE_PATH :: string where
  "CHANGELOG_FILE_PATH = ''CHANGELOG.md''"

definition FLUTTER_VERSION :: string where
  "FLUTTER_VERSION = ''3.29.1''"

text \<open>The emoji of the messages, in UTF-8.\<close>

definition cross_mark :: string where
  "cross_mark = [CHR 0xE2, CHR 0x9D, CHR 0x8C]"

definition check_mark :: string where
  "check_mark = [CHR 0xE2, CHR 0x9C, CHR 0x85]"

definition memo_sign :: string where
  "memo_sign = [CHR 0xF0, CHR 0x9F, CHR 0x93, CHR 0x9D]"

definition package_sign :: string where
  "package_sign = [CHR 0xF0, CHR 0x9F, CHR 0x93, CHR 0xA6]"

definition key_sign :: string where
  "key_sign = [CHR 0xF0, CHR 0x9F, CHR 0x94, CHR 0x91]"

definition rocket_sign :: string where
  "rocket_sign = [CHR 0xF0, CHR 0x9F, CHR 0x9A, CHR 0x80]"

definition help_text :: string where
  "help_text = newline
     @ ''Usage:'' @ newline
     @ ''  python release.py <command> [options]'' @ newline
     @ newline
     @ ''Commands:'' @ newline
     @ ''  bump <flavor> <platform>        Bump version for specific flavor/platform'' @ newline
     @ ''  bump-all                        Bump build numbers for all flavors/platforms'' @ newline
     @ ''  release <flavor> <platform>     Bump + shorebird release + fastlane publish'' @ newline
     @ ''  release-all                     Perform release for all combinations'' @ newline
     @ ''  --help                          Show this help menu'' @ newline"

definition print_help :: "unit action" where
  "print_help = py_print help_text"

definition read_version_file :: "json action" where
  "read_version_file =
     seq (emit (Exists VERSION_FILE_PATH)) (\<lambda>_ w.
       case version_json (files w) of
         None \<Rightarrow> py_raise (FileNotFoundError (''Missing '' @ VERSION_FILE_PATH)) w
       | Some data \<Rightarrow> seq (emit (Read VERSION_FILE_PATH)) (\<lambda>_. ret data) w)"

definition write_version_file :: "json \<Rightarrow> unit action" where
  "write_version_file data w =
     (Inr (), \<lparr>files = (files w)\<lparr>version_json := Some data\<rparr>,
               trace = trace w @ [Write VERSION_FILE_PATH]\<rparr>)"

definition changelog_entry :: "string \<Rightarrow> string \<Rightarrow> string \<Rightarrow> json \<Rightarrow> json \<Rightarrow> string" where
  "changelog_entry date flavor platform build_name build_number =
     ''- ['' @ date @ ''] '' @ flavor @ '' ('' @ platform @ ''): ''
       @ py_str build_name @ ''+'' @ py_str build_number @ newline"

definition append_changelog :: "env \<Rightarrow> string \<Rightarrow> string \<Rightarrow> json \<Rightarrow> json \<Rightarrow> unit action" where
  "append_changelog E flavor platform build_name build_number w =
     (let date = now E (length (trace w));
          entry = changelog_entry date flavor platform build_name build_number;
          old = (case changelog_md (files w) of None \<Rightarrow> [] | Some c \<Rightarrow> c)
      in (Inr (), \<lparr>files = (files w)\<lparr>changelog_md := Some (old @ entry)\<rparr>,
                   trace = trace w @ [Append CHANGELOG_FILE_PATH]\<rparr>))"

definition version_line :: "json \<Rightarrow> json \<Rightarrow> string" where
  "version_line build_name build_number =
     ''version: '' @ py_str build_name @ ''+'' @ py_str build_number @ newline"

definition pubspec_line :: "json \<Rightarrow> json \<Rightarrow> string \<Rightarrow> string" where
  "pubspec_line build_name build_number line =
     (if startswith line ''version:'' then version_line build_name build_number else line)"

definition update_pubspec_yaml :: "json \<Rightarrow> json \<Rightarrow> unit action" where
  "update_pubspec_yaml build_name build_number w =
     (case pubspec_yaml (files w) of
        None \<Rightarrow> py_raise (FileNotFoundError ''pubspec.yaml'') w
      | Some text \<Rightarrow>
          let lines = readlines text;
              out = concat (map (pubspec_line build_name build_number) lines)
          in (Inr (),
              \<lparr>files = (files w)\<lparr>pubspec_yaml := Some out\<rparr>,
               trace = trace w @ [Read ''pubspec.yaml'', Write ''pubspec.yaml'',
                 Print (memo_sign @ '' Updated pubspec.yaml with version: ''
                   @ py_str build_name @ ''+'' @ py_str build_number)]\<rparr>))"

definition build_name_line :: "json \<Rightarrow> string" where
  "build_name_line build_name =
     ''      BUILD_NAME: '' @ dquote @ py_str build_name @ dquote @ newline"

definition build_number_line :: "json \<Rightarrow> string" where
  "build_number_line build_number =
     ''      BUILD_NUMBER: '' @ dquote @ py_str build_number @ dquote @ newline"

definition codemagic_line :: "json \<Rightarrow> json \<Rightarrow> string \<Rightarrow> string" where
  "codemagic_line build_name build_number line =
     (if contains ''BUILD_NAME'' line then build_name_line build_name
      else if contains ''BUILD_NUMBER'' line then build_number_line build_number
      else line)"

definition update_codemagic_yaml :: "json \<Rightarrow> json \<Rightarrow> unit action" where
  "update_codemagic_yaml build_name build_number =
     seq (emit (Exists ''codemagic.yaml'')) (\<lambda>_ w.
       case codemagic_yaml (files w) of
         None \<Rightarrow> ret () w
       | Some text \<Rightarrow>
           let lines = readlines text;
               out = concat (map (codemagic_line build_name build_number) lines)
           in (Inr (),
               \<lparr>files = (files w)\<lparr>codemagic_yaml := Some out\<rparr>,
                trace = trace w @ [Read ''codemagic.yaml'', Write ''codemagic.yaml'',
                  Print (memo_sign @ '' Updated codemagic.yaml with BUILD_NAME and BUILD_NUMBER'')]\<rparr>))"

definition get_aab_path :: "string \<Rightarrow> string" where
  "get_aab_path flavor =
     ''build/app/outputs/bundle/'' @ flavor @ ''Release/app-'' @ flavor @ ''-release.aab''"

definition get_ipa_path :: "string \<Rightarrow> string" where
  "get_ipa_path flavor =
     (case map_of [(''tiabytsp'', ''build/ios/ipa/TIA by TSP.ipa''),
                   (''workplacebyls'', ''build/ios/ipa/Workplace By LS.ipa''),
                   (''workplacebytsphub'', ''build/ios/ipa/Workplace By TSPHub.ipa'')] flavor of
        Some p \<Rightarrow> p
      | None \<Rightarrow> ''build/ios/ipa/'' @ flavor @ ''.ipa'')"

definition get_package_name :: "string \<Rightarrow> string" where
  "get_package_name flavor =
     (case map_of [(''workplacebyls'', ''com.locationsolutions.workplacebyls''),
                   (''workplacebytsphub'', ''com.locationsolutions.workplacebytsphub''),
                   (''tiabytsp'', ''com.locationsolutions.tiabytsp'')] flavor of
        Some p \<Rightarrow> p
      | None \<Rightarrow> ''com.locationsolutions.workplacebyls'')"

definition CREDENTIALS_PATH :: string where
  "CREDENTIALS_PATH = ''credentials/ayman-sctipt-credentials.json''"

definition load_credentials :: "string \<Rightarrow> json action" where
  "load_credentials flavor =
     seq (emit (Exists CREDENTIALS_PATH)) (\<lambda>_ w.
       case credentials_json (files w) of
         None \<Rightarrow> py_raise (FileNotFoundError ''Missing ayman-sctipt-credentials.json'') w
       | Some data \<Rightarrow>
           seq (emit (Read CREDENTIALS_PATH)) (\<lambda>_.
           seq (lift (py_in flavor data)) (\<lambda>present.
             if \<not> present then py_raise (KeyError (''No credentials found for '' @ flavor))
             else
               seq (lift (getitem data flavor)) (\<lambda>shown.
               seq (py_print (key_sign @ '' Loaded credentials for '' @ flavor @ '' ''
                      @ py_str shown)) (\<lambda>_.
               lift (getitem data flavor))))) w)"

definition upload_to_google_play :: "env \<Rightarrow> string \<Rightarrow> unit action" where
  "upload_to_google_play E flavor =
     (let aab_path = get_aab_path flavor in
      seq (emit (Exists aab_path)) (\<lambda>_ w.
        if \<not> other_paths (files w) aab_path
        then py_print (cross_mark @ '' AAB not found. Did you run `flutter build appbundle`?'') w
        else
          seq (load_credentials flavor) (\<lambda>creds.
          seq (lift (getitem creds ''google_play'')) (\<lambda>json_key.
          seq (subprocess_run E
                 [JStr ''fastlane'', JStr ''supply'',
                  JStr ''--aab'', JStr aab_path,
                  JStr ''--package_name'', JStr (get_package_name flavor),
                  JStr ''--track'', JStr ''production'',
                  JStr ''--json_key'', json_key,
                  JStr ''--skip_upload_metadata'',
                  JStr ''--skip_upload_images'',
                  JStr ''--skip_upload_screenshots''] False) (\<lambda>result.
          seq (py_print (stdout result)) (\<lambda>_.
          seq (py_print (stderr result)) (\<lambda>_.
          py_print (if returncode result = 0
                    then check_mark @ '' Uploaded to Google Play Store''
                    else cross_mark @ '' Google Play upload failed'')))))) w))"

definition upload_to_app_store :: "env \<Rightarrow> string \<Rightarrow> unit action" where
  "upload_to_app_store E flavor =
     (let ipa_path = get_ipa_path flavor in
      seq (emit (Exists ipa_path)) (\<lambda>_ w.
        if \<not> other_paths (files w) ipa_path
        then py_print (cross_mark @ '' IPA not found at '' @ ipa_path) w
        else
          seq (load_credentials flavor) (\<lambda>creds.
          seq (lift (getitem creds ''app_store_key_path'')) (\<lambda>api_key_path.
          seq (subprocess_run E
                 [JStr ''fastlane'', JStr ''deliver'',
                  JStr ''--ipa'', JStr ipa_path,
                  JStr ''--skip_metadata'',
                  JStr ''--skip_screenshots'',
                  JStr ''--submit_for_review'',
                  JStr ''--automatic_release'',
                  JStr ''--api_key_path'', api_key_path] False) (\<lambda>result.
          seq (py_print (stdout result)) (\<lambda>_.
          seq (py_print (stderr result)) (\<lambda>_.
          py_print (if returncode result = 0
                    then check_mark @ '' Uploaded to App Store Connect''
                    else cross_mark @ '' App Store upload failed'')))))) w))"

subsection \<open>The four workflows\<close>

definition bnd :: "exn + 'a \<Rightarrow> ('a \<Rightarrow> exn + 'b) \<Rightarrow> exn + 'b" where
  "bnd r f = (case r of Inl e \<Rightarrow> Inl e | Inr a \<Rightarrow> f a)"

text \<open>
  \<open>data[flavor][platform]['build_number'] = v\<close>. The innermost dictionary is changed in
  place; \<open>json.load\<close> shares no dictionary between two places of a document, so the
  document afterwards is the old one with that one entry replaced.
\<close>

definition set_build_number :: "json \<Rightarrow> string \<Rightarrow> string \<Rightarrow> json \<Rightarrow> exn + json" where
  "set_build_number data flavor platform v =
     bnd (getitem data flavor) (\<lambda>entry.
     bnd (getitem entry platform) (\<lambda>current.
     bnd (setitem current ''build_number'' v) (\<lambda>current'.
     bnd (setitem entry platform current') (\<lambda>entry'.
     setitem data flavor entry'))))"

definition handle_bump :: "env \<Rightarrow> string list \<Rightarrow> unit action" where
  "handle_bump E args =
     (if length args < 2
      then seq (py_print (cross_mark @ '' Usage: bump <flavor> <platform>'')) (\<lambda>_. sys_exit 1)
      else case args of
        [flavor, platform] \<Rightarrow>
          if flavor \<notin> set SUPPORTED_FLAVORS \<or> platform \<notin> set SUPPORTED_PLATFORMS
          then seq (py_print (cross_mark @ '' Invalid flavor or platform.'')) (\<lambda>_. sys_exit 1)
          else
            seq read_version_file (\<lambda>data.
            seq (lift (bnd (getitem data flavor) (\<lambda>entry. getitem entry platform))) (\<lambda>current.
            seq (lift (bnd (getitem data flavor) (\<lambda>entry. getitem entry ''build_name''))) (\<lambda>build_name.
            seq (lift (bnd (getitem current ''build_number'') py_add1)) (\<lambda>build_number.
            seq (lift (set_build_number data flavor platform build_number)) (\<lambda>data'.
            seq (write_version_file data') (\<lambda>_.
            seq (append_changelog E flavor platform build_name build_number) (\<lambda>_.
            seq (py_print (check_mark @ '' Bumped '' @ flavor @ '' ('' @ platform @ '') to ''
                   @ py_str build_name @ ''+'' @ py_str build_number)) (\<lambda>_.
            seq (py_print (''BUILD_NAME='' @ py_str build_name)) (\<lambda>_.
            py_print (''BUILD_NUMBER='' @ py_str build_number))))))))))
      | _ \<Rightarrow> py_raise ValueError)"

text \<open>The body of the two nested loops of \<open>handle_bump_all\<close>; it returns the document.\<close>

definition bump_pair :: "env \<Rightarrow> string \<Rightarrow> string \<Rightarrow> json \<Rightarrow> json action" where
  "bump_pair E flavor platform data =
     seq (lift (bnd (getitem data flavor) (\<lambda>entry. getitem entry platform))) (\<lambda>current.
     seq (lift (bnd (getitem data flavor) (\<lambda>entry. getitem entry ''build_name''))) (\<lambda>build_name.
     seq (lift (bnd (getitem current ''build_number'') py_add1)) (\<lambda>build_number.
     seq (lift (set_build_number data flavor platform build_number)) (\<lambda>data'.
     seq (append_changelog E flavor platform build_name build_number) (\<lambda>_.
     seq (py_print (check_mark @ '' Bumped '' @ flavor @ '' ('' @ platform @ '') to ''
            @ py_str build_name @ ''+'' @ py_str build_number)) (\<lambda>_.
     ret data'))))))"

fun bump_platforms :: "env \<Rightarrow> string \<Rightarrow> string list \<Rightarrow> json \<Rightarrow> json action" where
  "bump_platforms E flavor [] data = ret data"
| "bump_platforms E flavor (platform # platforms) data =
     seq (bump_pair E flavor platform data) (bump_platforms E flavor platforms)"

fun bump_flavors :: "env \<Rightarrow> string list \<Rightarrow> json \<Rightarrow> json action" where
  "bump_flavors E [] data = ret data"
| "bump_flavors E (flavor # flavors) data =
     seq (bump_platforms E flavor SUPPORTED_PLATFORMS data) (bump_flavors E flavors)"

definition handle_bump_all :: "env \<Rightarrow> unit action" where
  "handle_bump_all E =
     seq read_version_file (\<lambda>data.
     seq (bump_flavors E SUPPORTED_FLAVORS data) (\<lambda>data'.
     seq (write_version_file data') (\<lambda>_.
     py_print (package_sign @ '' All versions bumped and saved to version.json''))))"

text \<open>The command line both release workflows build for the packaging tool.\<close>

definition shorebird_cmd :: "string \<Rightarrow> string \<Rightarrow> json \<Rightarrow> json \<Rightarrow> json list" where
  "shorebird_cmd flavor platform build_name build_number =
     [JStr ''shorebird'', JStr ''release'', JStr platform,
      JStr (''--flutter-version='' @ FLUTTER_VERSION),
      JStr ''--flavor'', JStr flavor,
      JStr ''-t'', JStr (''lib/main_'' @ flavor @ ''.dart''),
      JStr (''--build-name='' @ py_str build_name),
      JStr (''--build-number='' @ py_str build_number)]"

definition upload :: "env \<Rightarrow> string \<Rightarrow> string \<Rightarrow> unit action" where
  "upload E flavor platform =
     (if platform = ''android'' then upload_to_google_play E flavor
      else if platform = ''ios'' then upload_to_app_store E flavor
      else ret ())"

definition handle_release :: "env \<Rightarrow> string list \<Rightarrow> unit action" where
  "handle_release E args =
     (if length args < 2
      then seq (py_print (cross_mark @ '' Usage: release <flavor> <platform>'')) (\<lambda>_. sys_exit 1)
      else case args of
        [flavor, platform] \<Rightarrow>
          seq read_version_file (\<lambda>data.
          seq (lift (bnd (getitem data flavor) (\<lambda>entry. getitem entry platform))) (\<lambda>current.
          seq (lift (bnd (getitem data flavor) (\<lambda>entry. getitem entry ''build_name''))) (\<lambda>build_name.
          seq (lift (getitem current ''build_number'')) (\<lambda>build_number.
          seq (lift (py_add1 build_number)) (\<lambda>new_build_number.
          seq (update_pubspec_yaml build_name build_number) (\<lambda>_.
          seq (update_codemagic_yaml build_name build_number) (\<lambda>_.
          seq (subprocess_run E (shorebird_cmd flavor platform build_name build_number) False) (\<lambda>result.
          seq (py_print (stdout result)) (\<lambda>_.
          seq (py_print (stderr result)) (\<lambda>_.
          seq (upload E flavor platform) (\<lambda>_.
          seq (lift (set_build_number data flavor platform new_build_number)) (\<lambda>data'.
          seq (write_version_file data') (\<lambda>_.
          seq (append_changelog E flavor platform build_name new_build_number) (\<lambda>_.
          py_print (check_mark @ '' Released and bumped to ''
            @ py_str build_name @ ''+'' @ py_str new_build_number)))))))))))))))
      | _ \<Rightarrow> py_raise ValueError)"

text \<open>
  The body of the two nested loops of \<open>handle_release_all\<close>. Here the packaging tool is
  run with \<open>shell=True\<close> and the environment variables \<open>LANG\<close>, \<open>TERM\<close>, \<open>HOME\<close> and
  \<open>PATH\<close> set; the document is read and not changed.
\<close>

definition release_pair :: "env \<Rightarrow> json \<Rightarrow> string \<Rightarrow> string \<Rightarrow> unit action" where
  "release_pair E data platform flavor =
     seq (lift (bnd (getitem data flavor) (\<lambda>entry. getitem entry platform))) (\<lambda>current.
     seq (lift (bnd (getitem data flavor) (\<lambda>entry. getitem entry ''build_name''))) (\<lambda>build_name.
     seq (lift (getitem current ''build_number'')) (\<lambda>build_number.
     seq (update_pubspec_yaml build_name build_number) (\<lambda>_.
     seq (update_codemagic_yaml build_name build_number) (\<lambda>_.
     seq (py_print (rocket_sign @ '' Releasing '' @ flavor @ '' ('' @ platform @ '')...'')) (\<lambda>_.
     seq (subprocess_run E (shorebird_cmd flavor platform build_name build_number) True) (\<lambda>result.
     seq (py_print (stdout result)) (\<lambda>_.
     seq (py_print (stderr result)) (\<lambda>_.
     seq (upload E flavor platform) (\<lambda>_.
     seq (append_changelog E flavor platform build_name build_number) (\<lambda>_.
     py_print (check_mark @ '' Done: '' @ flavor @ '' ('' @ platform @ '') -> ''
       @ py_str build_name @ ''+'' @ py_str build_number))))))))))))"

fun release_flavors :: "env \<Rightarrow> json \<Rightarrow> string \<Rightarrow> string list \<Rightarrow> unit action" where
  "release_flavors E data platform [] = ret ()"
| "release_flavors E data platform (flavor # flavors) =
     seq (release_pair E data platform flavor) (\<lambda>_. release_flavors E data platform flavors)"

fun release_platforms :: "env \<Rightarrow> json \<Rightarrow> string list \<Rightarrow> unit action" where
  "release_platforms E data [] = ret ()"
| "release_platforms E data (platform # platforms) =
     seq (release_flavors E data platform SUPPORTED_FLAVORS) (\<lambda>_. release_platforms E data platforms)"

definition handle_release_all :: "env \<Rightarrow> unit action" where
  "handle_release_all E =
     seq (py_print (package_sign @ '' Bumping all...'')) (\<lambda>_.
     seq (handle_bump_all E) (\<lambda>_.
     seq read_version_file (\<lambda>data.
     seq (release_platforms E data SUPPORTED_PLATFORMS) (\<lambda>_.
     seq (write_version_file data) (\<lambda>_.
     py_print (check_mark @ '' All releases done.''))))))"

definition main :: "env \<Rightarrow> string list \<Rightarrow> unit action" where
  "main E args =
     (case args of
        [] \<Rightarrow> print_help
      | command # options \<Rightarrow>
          if ''--help'' \<in> set args then print_help
          else if command = ''bump'' then handle_bump E options
          else if command = ''bump-all'' then handle_bump_all E
          else if command = ''release'' then handle_release E options
          else if command = ''release-all'' then handle_release_all E
          else
            seq (py_print (cross_mark @ '' Unknown command: '' @ command @ newline)) (\<lambda>_.
            seq print_help (\<lambda>_. sys_exit 1)))"

text \<open>
  The exit status of the process: 0 when \<open>main\<close> returns, the argument of \<open>sys.exit\<close>, and
  1 when another exception reaches the top level.
\<close>

fun exit_status :: "exn + unit \<Rightarrow> int" where
  "exit_status (Inr _) = 0"
| "exit_status (Inl (SystemExit n)) = n"
| "exit_status (Inl _) = 1"

section \<open>Reading a version document\<close>

text \<open>
  The three reads the workflows make: \<open>data[flavor][key]\<close>, \<open>data[flavor]['build_name']\<close>
  and \<open>data[flavor][platform]['build_number']\<close>.
\<close>

definition entry_of :: "json \<Rightarrow> string \<Rightarrow> string \<Rightarrow> exn + json" where
  "entry_of data flavor key = bnd (getitem data flavor) (\<lambda>entry. getitem entry key)"

definition build_name_of :: "json \<Rightarrow> string \<Rightarrow> exn + json" where
  "build_name_of data flavor = entry_of data flavor ''build_name''"

definition build_number_of :: "json \<Rightarrow> string \<Rightarrow> string \<Rightarrow> exn + json" where
  "build_number_of data flavor platform =
     bnd (entry_of data flavor platform) (\<lambda>current. getitem current ''build_number'')"

text \<open>
  A document is complete when every supported flavor has a build name and, for every
  supported platform, an integer build number.
\<close>

definition has_build_name :: "json \<Rightarrow> string \<Rightarrow> bool" where
  "has_build_name data flavor =
     (case build_name_of data flavor of Inr _ \<Rightarrow> True | Inl _ \<Rightarrow> False)"

definition has_build_number :: "json \<Rightarrow> string \<Rightarrow> string \<Rightarrow> bool" where
  "has_build_number data flavor platform =
     (case build_number_of data flavor platform of Inr (JInt _) \<Rightarrow> True | _ \<Rightarrow> False)"

definition complete_doc :: "json \<Rightarrow> bool" where
  "complete_doc data =
     (\<forall>flavor \<in> set SUPPORTED_FLAVORS. has_build_name data flavor
        \<and> (\<forall>platform \<in> set SUPPORTED_PLATFORMS. has_build_number data flavor platform))"

section \<open>Properties of actions\<close>

text \<open>An action grows the trace: what was recorded before it stays, in front.\<close>

definition grows :: "'a action \<Rightarrow> bool" where
  "grows m = (\<forall>w. prefix (trace w) (trace (snd (m w))))"

text \<open>
  The same outside, except that every external program that completes ends with the
  exit code \<open>rc\<close> gives it; what the program prints and does to the files stays.
\<close>

definition with_codes :: "(nat \<Rightarrow> string list \<Rightarrow> int) \<Rightarrow> env \<Rightarrow> env" where
  "with_codes rc E =
     E\<lparr>process := (\<lambda>k argv shell f.
        case process E k argv shell f of
          (Inl e, f') \<Rightarrow> (Inl e, f')
        | (Inr c, f') \<Rightarrow> (Inr (c\<lparr>returncode := rc k argv\<rparr>), f'))\<rparr>"

text \<open>Two events are the same up to the text that is printed.\<close>

fun same_event :: "event \<Rightarrow> event \<Rightarrow> bool" where
  "same_event (Print s) (Print t) = True"
| "same_event a b = (a = b)"

text \<open>
  Two worlds agree when their files are equal and their traces are the same up to
  printed text. Two actions are similar when, from worlds that agree, they end in
  worlds that agree, both with the same exception or both with results related by \<open>R\<close>.
\<close>

definition agree :: "world \<Rightarrow> world \<Rightarrow> bool" where
  "agree w1 w2 = (files w1 = files w2 \<and> list_all2 same_event (trace w1) (trace w2))"

definition similar :: "('a \<Rightarrow> 'b \<Rightarrow> bool) \<Rightarrow> 'a action \<Rightarrow> 'b action \<Rightarrow> bool" where
  "similar R m1 m2 =
     (\<forall>w1 w2. agree w1 w2 \<longrightarrow>
        agree (snd (m1 w1)) (snd (m2 w2)) \<and> rel_sum (=) R (fst (m1 w1)) (fst (m2 w2)))"

definition same_output :: "completed \<Rightarrow> completed \<Rightarrow> bool" where
  "same_output c1 c2 = (stdout c1 = stdout c2 \<and> stderr c1 = stderr c2)"

section \<open>A sample store\<close>

text \<open>
  The document of the specification's examples, with the same entry for each of the
  three flavors, in a directory that holds a manifest and nothing else; the external
  programs end with exit code 0 and leave the files alone.
\<close>

definition example_entry :: json where
  "example_entry =
     JObj [(''build_name'', JStr ''1.2.0''),
           (''android'', JObj [(''build_number'', JInt 5)]),
           (''ios'', JObj [(''build_number'', JInt 5)])]"

definition example_doc :: json where
  "example_doc =
     JObj [(''workplacebyls'', example_entry),
           (''workplacebytsphub'', example_entry),
           (''tiabytsp'', example_entry)]"

definition example_files :: fs where
  "example_files =
     \<lparr>version_json = Some example_doc,
      changelog_md = None,
      pubspec_yaml = Some (''name: app'' @ newline @ ''version: 1.0.0+1'' @ newline),
      codemagic_yaml = None,
      credentials_json = None,
      other_paths = (\<lambda>_. False)\<rparr>"

definition example_world :: world where
  "example_world = \<lparr>files = example_files, trace = []\<rparr>"

definition example_env :: env where
  "example_env =
     \<lparr>now = (\<lambda>_. ''2025-01-01''),
      process = (\<lambda>_ _ _ f. (Inr \<lparr>returncode = 0, stdout = ''out'', stderr = ''err''\<rparr>, f))\<rparr>"

text \<open>The same directory with a CI descriptor.\<close>

definition example_ci_world :: world where
  "example_ci_world =
     example_world\<lparr>files := (files example_world)\<lparr>codemagic_yaml :=
       Some (''vars:'' @ newline @ ''  BUILD_NAME: x'' @ newline @ ''  BUILD_NUMBER: y'' @ newline)\<rparr>\<rparr>"

text \<open>The same directory with the Android artifact of one flavor and its credentials.\<close>

definition example_upload_world :: world where
  "example_upload_world =
     example_world\<lparr>files := (files example_world)\<lparr>
       credentials_json := Some (JObj [(''workplacebyls'',
         JObj [(''google_play'', JStr ''keys/play.json''),
               (''app_store_key_path'', JStr ''keys/store.json'')])]),
       other_paths := (\<lambda>p. p = get_aab_path ''workplacebyls'')\<rparr>\<rparr>"

text \<open>The same directory with the Android artifact and the credentials of a flavor \<open>demo\<close>.\<close>

definition example_unknown_world :: world where
  "example_unknown_world =
     example_world\<lparr>files := (files example_world)\<lparr>
       credentials_json := Some (JObj [(''demo'', JObj [(''google_play'', JStr ''keys/play.json'')])]),
       other_paths := (\<lambda>p. p = get_aab_path ''demo'')\<rparr>\<rparr>"

section \<open>Sequencing and dictionaries\<close>

lemma seq_emit: "seq (emit ev) f w = f () (w\<lparr>trace := trace w @ [ev]\<rparr>)"
  by (simp add: seq_def emit_def)

lemma seq_print: "seq (py_print s) f w = f () (w\<lparr>trace := trace w @ [Print s]\<rparr>)"
  by (simp add: py_print_def seq_emit)

lemma seq_lift_Inr: "seq (lift (Inr a)) f w = f a w"
  by (simp add: seq_def lift_def)

lemma seq_lift_Inl: "seq (lift (Inl e)) f w = (Inl e, w)"
  by (simp add: seq_def lift_def)

lemma seq_ret: "seq (ret a) f w = f a w"
  by (simp add: seq_def ret_def)

lemma bnd_Inr: "bnd (Inr a) f = f a"
  by (simp add: bnd_def)

lemma bnd_Inl: "bnd (Inl e) f = Inl e"
  by (simp add: bnd_def)

lemma bnd_eq_Inr: "bnd r f = Inr b \<longleftrightarrow> (\<exists>a. r = Inr a \<and> f a = Inr b)"
  by (cases r) (simp_all add: bnd_def)

lemma getitem_eq_Inr: "getitem d k = Inr v \<longleftrightarrow> (\<exists>kvs. d = JObj kvs \<and> map_of kvs k = Some v)"
  by (cases d) (auto split: option.splits)

lemma setitem_same: "getitem d k = Inr x \<Longrightarrow> \<exists>d'. setitem d k v = Inr d'"
  by (auto simp add: getitem_eq_Inr)

lemma getitem_setitem:
  "setitem d k v = Inr d' \<Longrightarrow> getitem d' k' = (if k' = k then Inr v else getitem d k')"
  by (cases d) (auto simp add: update_conv')

lemma set_build_number_total:
  assumes "build_number_of D f p = Inr x"
  shows "\<exists>D'. set_build_number D f p v = Inr D'"
proof -
  from assms obtain entry current where e: "getitem D f = Inr entry"
    and c: "getitem entry p = Inr current" and n: "getitem current ''build_number'' = Inr x"
    by (auto simp add: build_number_of_def entry_of_def bnd_eq_Inr)
  from n obtain current' where c': "setitem current ''build_number'' v = Inr current'"
    using setitem_same by blast
  from c obtain entry' where e': "setitem entry p current' = Inr entry'"
    using setitem_same by blast
  from e obtain D' where "setitem D f entry' = Inr D'"
    using setitem_same by blast
  with e c c' e' show ?thesis
    by (simp add: set_build_number_def bnd_Inr)
qed

lemma set_build_number_reads:
  assumes "set_build_number D f p v = Inr D'"
  shows "build_number_of D' f p = Inr v"
    and "f' \<noteq> f \<Longrightarrow> getitem D' f' = getitem D f'"
    and "k \<noteq> p \<Longrightarrow> entry_of D' f' k = entry_of D f' k"
    and "f' \<noteq> f \<or> p' \<noteq> p \<Longrightarrow> build_number_of D' f' p' = build_number_of D f' p'"
    and "k \<noteq> ''build_number'' \<Longrightarrow>
           bnd (entry_of D' f' p') (\<lambda>c. getitem c k) = bnd (entry_of D f' p') (\<lambda>c. getitem c k)"
proof -
  from assms obtain entry current current' entry' where e: "getitem D f = Inr entry"
    and c: "getitem entry p = Inr current"
    and c': "setitem current ''build_number'' v = Inr current'"
    and e': "setitem entry p current' = Inr entry'"
    and D': "setitem D f entry' = Inr D'"
    by (auto simp add: set_build_number_def bnd_eq_Inr)
  have gD: "getitem D' g = (if g = f then Inr entry' else getitem D g)" for g
    using getitem_setitem [OF D'] .
  have gE: "getitem entry' k = (if k = p then Inr current' else getitem entry k)" for k
    using getitem_setitem [OF e'] .
  have gC: "getitem current' k = (if k = ''build_number'' then Inr v else getitem current k)" for k
    using getitem_setitem [OF c'] .
  show "build_number_of D' f p = Inr v"
    by (simp add: build_number_of_def entry_of_def gD gE gC bnd_Inr)
  show "f' \<noteq> f \<Longrightarrow> getitem D' f' = getitem D f'"
    by (simp add: gD)
  show k: "entry_of D' f' k = entry_of D f' k" if "k \<noteq> p" for k f'
    using that e by (simp add: entry_of_def gD gE bnd_Inr)
  show "build_number_of D' f' p' = build_number_of D f' p'" if "f' \<noteq> f \<or> p' \<noteq> p"
  proof (cases "f' = f")
    case False
    then show ?thesis by (simp add: build_number_of_def entry_of_def gD)
  next
    case True
    with that have "p' \<noteq> p" by simp
    then show ?thesis by (simp add: build_number_of_def k)
  qed
  show "bnd (entry_of D' f' p') (\<lambda>c. getitem c k) = bnd (entry_of D f' p') (\<lambda>c. getitem c k)"
    if "k \<noteq> ''build_number''"
    using that e c by (simp add: entry_of_def gD gE gC bnd_Inr)
qed

section \<open>The version store\<close>

lemma read_version_file_Some:
  "version_json (files w) = Some D \<Longrightarrow>
     read_version_file w =
       (Inr D, w\<lparr>trace := trace w @ [Exists VERSION_FILE_PATH, Read VERSION_FILE_PATH]\<rparr>)"
  by (simp add: read_version_file_def seq_emit ret_def)

lemma read_version_file_None:
  "version_json (files w) = None \<Longrightarrow>
     read_version_file w =
       (Inl (FileNotFoundError (''Missing '' @ VERSION_FILE_PATH)),
        w\<lparr>trace := trace w @ [Exists VERSION_FILE_PATH]\<rparr>)"
  by (simp add: read_version_file_def seq_emit py_raise_def)

lemma handle_bump_ok:
  assumes valid: "flavor \<in> set SUPPORTED_FLAVORS" "platform \<in> set SUPPORTED_PLATFORMS"
    and D: "version_json (files w) = Some D"
    and n: "build_number_of D flavor platform = Inr (JInt n)"
    and name: "build_name_of D flavor = Inr name"
    and D': "set_build_number D flavor platform (JInt (n + 1)) = Inr D'"
  shows "handle_bump E [flavor, platform] w =
    (Inr (),
     \<lparr>files = (files w)\<lparr>version_json := Some D',
        changelog_md := Some ((case changelog_md (files w) of None \<Rightarrow> [] | Some c \<Rightarrow> c)
          @ changelog_entry (now E (length (trace w) + 3)) flavor platform name (JInt (n + 1)))\<rparr>,
      trace = trace w @
        [Exists VERSION_FILE_PATH, Read VERSION_FILE_PATH, Write VERSION_FILE_PATH,
         Append CHANGELOG_FILE_PATH,
         Print (check_mark @ '' Bumped '' @ flavor @ '' ('' @ platform @ '') to ''
           @ py_str name @ ''+'' @ py_str (JInt (n + 1))),
         Print (''BUILD_NAME='' @ py_str name),
         Print (''BUILD_NUMBER='' @ py_str (JInt (n + 1)))]\<rparr>)"
proof -
  from n obtain current where cur: "entry_of D flavor platform = Inr current"
    and bn: "getitem current ''build_number'' = Inr (JInt n)"
    by (auto simp add: build_number_of_def bnd_eq_Inr)
  have r: "seq read_version_file f w =
      f D (w\<lparr>trace := trace w @ [Exists VERSION_FILE_PATH, Read VERSION_FILE_PATH]\<rparr>)"
    for f :: "json \<Rightarrow> unit action"
    by (simp add: seq_def read_version_file_Some [OF D])
  show ?thesis
    using valid cur name [unfolded build_name_of_def] bn D'
    by (simp add: handle_bump_def r entry_of_def [symmetric] seq_lift_Inr bnd_Inr
        seq_def [of "write_version_file _"] seq_def [of "append_changelog _ _ _ _ _"]
        write_version_file_def append_changelog_def
        seq_emit py_print_def emit_def Let_def eval_nat_numeral)
qed

lemma example_doc_reads:
  "build_number_of example_doc ''workplacebyls'' ''android'' = Inr (JInt 5)"
  "build_number_of example_doc ''workplacebyls'' ''ios'' = Inr (JInt 5)"
  "build_name_of example_doc ''workplacebyls'' = Inr (JStr ''1.2.0'')"
  "getitem example_doc ''tiabytsp'' = Inr example_entry"
  "version_json (files example_world) = Some example_doc"
  "''workplacebyls'' \<in> set SUPPORTED_FLAVORS"
  "''android'' \<in> set SUPPORTED_PLATFORMS"
  "build_number_of example_doc ''tiabytsp'' ''ios'' = Inr (JInt 5)"
  "''tiabytsp'' \<in> set SUPPORTED_FLAVORS"
  "''ios'' \<in> set SUPPORTED_PLATFORMS"
  by (simp_all add: build_number_of_def build_name_of_def entry_of_def bnd_def
      example_doc_def example_entry_def example_world_def example_files_def
      SUPPORTED_FLAVORS_def SUPPORTED_PLATFORMS_def)

lemma example_doc_complete: "complete_doc example_doc"
  by (simp add: complete_doc_def has_build_name_def has_build_number_def
      build_number_of_def build_name_of_def entry_of_def bnd_def
      example_doc_def example_entry_def SUPPORTED_FLAVORS_def SUPPORTED_PLATFORMS_def)

section \<open>Lines of text\<close>

lemma concat_readlines: "concat (readlines s) = s"
  by (induction s) (auto split: list.splits)

lemma map_unchanged: "(\<forall>x\<in>set xs. f x = x) \<Longrightarrow> map f xs = xs"
  by (induction xs) auto

lemma fs_same_pubspec: "pubspec_yaml F = Some t \<Longrightarrow> F\<lparr>pubspec_yaml := Some t\<rparr> = F"
  by (cases F) simp

lemma fs_same_codemagic: "codemagic_yaml F = Some t \<Longrightarrow> F\<lparr>codemagic_yaml := Some t\<rparr> = F"
  by (cases F) simp

section \<open>The loops of \<open>handle_bump_all\<close>\<close>

lemma has_build_name_iff: "has_build_name D f \<longleftrightarrow> (\<exists>name. build_name_of D f = Inr name)"
  by (cases "build_name_of D f") (simp_all add: has_build_name_def)

lemma has_build_number_iff:
  "has_build_number D f p \<longleftrightarrow> (\<exists>n. build_number_of D f p = Inr (JInt n))"
  by (auto simp add: has_build_number_def split: sum.splits json.splits)

lemma bump_pair_ok:
  assumes n: "build_number_of D f p = Inr (JInt n)"
    and name: "build_name_of D f = Inr name"
    and D': "set_build_number D f p (JInt (n + 1)) = Inr D'"
  shows "bump_pair E f p D w =
    (Inr D',
     \<lparr>files = (files w)\<lparr>changelog_md :=
        Some ((case changelog_md (files w) of None \<Rightarrow> [] | Some c \<Rightarrow> c)
          @ changelog_entry (now E (length (trace w))) f p name (JInt (n + 1)))\<rparr>,
      trace = trace w @
        [Append CHANGELOG_FILE_PATH,
         Print (check_mark @ '' Bumped '' @ f @ '' ('' @ p @ '') to ''
           @ py_str name @ ''+'' @ py_str (JInt (n + 1)))]\<rparr>)"
proof -
  from n obtain current where cur: "entry_of D f p = Inr current"
    and bn: "getitem current ''build_number'' = Inr (JInt n)"
    by (auto simp add: build_number_of_def bnd_eq_Inr)
  show ?thesis
    using cur name [unfolded build_name_of_def] bn D'
    by (simp add: bump_pair_def entry_of_def [symmetric] seq_lift_Inr bnd_Inr
        seq_def [of "append_changelog _ _ _ _ _"] append_changelog_def
        seq_emit py_print_def ret_def Let_def)
qed

lemma bump_platforms_ok:
  assumes "distinct ps" "''build_name'' \<notin> set ps" "has_build_name D f"
    and "\<forall>p\<in>set ps. has_build_number D f p"
  shows "\<exists>D' w' evs. bump_platforms E f ps D w = (Inr D', w')
      \<and> (\<forall>g p. build_number_of D' g p =
            (if g = f \<and> p \<in> set ps then bnd (build_number_of D g p) py_add1
             else build_number_of D g p))
      \<and> (\<forall>g. build_name_of D' g = build_name_of D g)
      \<and> version_json (files w') = version_json (files w)
      \<and> trace w' = trace w @ evs \<and> Write VERSION_FILE_PATH \<notin> set evs"
  using assms
proof (induction ps arbitrary: D w)
  case Nil
  then show ?case by (simp add: ret_def)
next
  case (Cons p ps)
  from Cons.prems obtain n name where n: "build_number_of D f p = Inr (JInt n)"
    and name: "build_name_of D f = Inr name"
    by (auto simp add: has_build_number_iff has_build_name_iff)
  obtain D1 where D1: "set_build_number D f p (JInt (n + 1)) = Inr D1"
    using set_build_number_total [OF n] by blast
  let ?w1 = "\<lparr>files = (files w)\<lparr>changelog_md :=
        Some ((case changelog_md (files w) of None \<Rightarrow> [] | Some c \<Rightarrow> c)
          @ changelog_entry (now E (length (trace w))) f p name (JInt (n + 1)))\<rparr>,
      trace = trace w @
        [Append CHANGELOG_FILE_PATH,
         Print (check_mark @ '' Bumped '' @ f @ '' ('' @ p @ '') to ''
           @ py_str name @ ''+'' @ py_str (JInt (n + 1)))]\<rparr>"
  have step: "bump_pair E f p D w = (Inr D1, ?w1)"
    by (rule bump_pair_ok [OF n name D1])
  have p_name: "p \<noteq> ''build_name''" using Cons.prems(2) by auto
  have num1: "build_number_of D1 g q =
      (if g = f \<and> q = p then Inr (JInt (n + 1)) else build_number_of D g q)" for g q
    using set_build_number_reads(1) [OF D1] set_build_number_reads(4) [OF D1, of g q]
    by auto
  have name1: "build_name_of D1 g = build_name_of D g" for g
    using set_build_number_reads(3) [OF D1, of "''build_name''" g] p_name
    by (simp add: build_name_of_def)
  have pre: "distinct ps" "''build_name'' \<notin> set ps" "has_build_name D1 f"
    "\<forall>q\<in>set ps. has_build_number D1 f q"
    using Cons.prems by (auto simp add: has_build_name_def has_build_number_def name1 num1)
  from Cons.IH [OF pre, of ?w1] obtain D' w' evs
    where run: "bump_platforms E f ps D1 ?w1 = (Inr D', w')"
      and num: "\<forall>g q. build_number_of D' g q =
            (if g = f \<and> q \<in> set ps then bnd (build_number_of D1 g q) py_add1
             else build_number_of D1 g q)"
      and nam: "\<forall>g. build_name_of D' g = build_name_of D1 g"
      and ver: "version_json (files w') = version_json (files ?w1)"
      and tr: "trace w' = trace ?w1 @ evs" and nw: "Write VERSION_FILE_PATH \<notin> set evs"
    by (elim exE conjE)
  have p_notin: "p \<notin> set ps" using Cons.prems(1) by simp
  have num': "build_number_of D' g q =
            (if g = f \<and> q \<in> set (p # ps) then bnd (build_number_of D g q) py_add1
             else build_number_of D g q)" for g q
    using num [rule_format, of g q] p_notin n
    by (auto simp add: num1 bnd_Inr)
  have run': "bump_platforms E f (p # ps) D w = (Inr D', w')"
    using step run by (simp add: seq_def)
  have tr': "trace w' = trace w @ ([Append CHANGELOG_FILE_PATH,
         Print (check_mark @ '' Bumped '' @ f @ '' ('' @ p @ '') to ''
           @ py_str name @ ''+'' @ py_str (JInt (n + 1)))] @ evs)"
    using tr by simp
  have nw': "Write VERSION_FILE_PATH \<notin> set ([Append CHANGELOG_FILE_PATH,
         Print (check_mark @ '' Bumped '' @ f @ '' ('' @ p @ '') to ''
           @ py_str name @ ''+'' @ py_str (JInt (n + 1)))] @ evs)"
    using nw by simp
  show ?case
    apply (rule exI [of _ D'], rule exI [of _ w'], rule exI)
    apply (intro conjI allI)
         apply (rule run')
        apply (rule num')
       apply (simp add: nam name1)
      apply (simp add: ver)
     apply (rule tr')
    apply (rule nw')
    done
qed

lemma bump_flavors_ok:
  assumes "distinct fs"
    and "\<forall>f\<in>set fs. has_build_name D f \<and> (\<forall>p\<in>set SUPPORTED_PLATFORMS. has_build_number D f p)"
  shows "\<exists>D' w' evs. bump_flavors E fs D w = (Inr D', w')
      \<and> (\<forall>g p. build_number_of D' g p =
            (if g \<in> set fs \<and> p \<in> set SUPPORTED_PLATFORMS
             then bnd (build_number_of D g p) py_add1
             else build_number_of D g p))
      \<and> (\<forall>g. build_name_of D' g = build_name_of D g)
      \<and> version_json (files w') = version_json (files w)
      \<and> trace w' = trace w @ evs \<and> Write VERSION_FILE_PATH \<notin> set evs"
  using assms
proof (induction fs arbitrary: D w)
  case Nil
  then show ?case by (simp add: ret_def)
next
  case (Cons f fs)
  have plat: "distinct SUPPORTED_PLATFORMS" "''build_name'' \<notin> set SUPPORTED_PLATFORMS"
    by (simp_all add: SUPPORTED_PLATFORMS_def)
  have hf: "has_build_name D f" "\<forall>p\<in>set SUPPORTED_PLATFORMS. has_build_number D f p"
    using Cons.prems(2) by simp_all
  from bump_platforms_ok [OF plat hf, of E w] obtain D1 w1 evs1
    where run1: "bump_platforms E f SUPPORTED_PLATFORMS D w = (Inr D1, w1)"
      and num1: "\<forall>g p. build_number_of D1 g p =
            (if g = f \<and> p \<in> set SUPPORTED_PLATFORMS then bnd (build_number_of D g p) py_add1
             else build_number_of D g p)"
      and nam1: "\<forall>g. build_name_of D1 g = build_name_of D g"
      and ver1: "version_json (files w1) = version_json (files w)"
      and tr1: "trace w1 = trace w @ evs1" and nw1: "Write VERSION_FILE_PATH \<notin> set evs1"
    by (elim exE conjE)
  have f_notin: "f \<notin> set fs" and dist: "distinct fs"
    using Cons.prems(1) by simp_all
  have pre: "\<forall>g\<in>set fs. has_build_name D1 g
      \<and> (\<forall>p\<in>set SUPPORTED_PLATFORMS. has_build_number D1 g p)"
    using Cons.prems(2) f_notin
    by (auto simp add: has_build_name_def has_build_number_def nam1 num1)
  from Cons.IH [OF dist pre, of w1] obtain D' w' evs
    where run: "bump_flavors E fs D1 w1 = (Inr D', w')"
      and num: "\<forall>g p. build_number_of D' g p =
            (if g \<in> set fs \<and> p \<in> set SUPPORTED_PLATFORMS
             then bnd (build_number_of D1 g p) py_add1
             else build_number_of D1 g p)"
      and nam: "\<forall>g. build_name_of D' g = build_name_of D1 g"
      and ver: "version_json (files w') = version_json (files w1)"
      and tr: "trace w' = trace w1 @ evs" and nw: "Write VERSION_FILE_PATH \<notin> set evs"
    by (elim exE conjE)
  have num': "build_number_of D' g p =
            (if g \<in> set (f # fs) \<and> p \<in> set SUPPORTED_PLATFORMS
             then bnd (build_number_of D g p) py_add1
             else build_number_of D g p)" for g p
    using num [rule_format, of g p] num1 [rule_format, of g p] f_notin by auto
  have run': "bump_flavors E (f # fs) D w = (Inr D', w')"
    using run1 run by (simp add: seq_def)
  have tr': "trace w' = trace w @ (evs1 @ evs)"
    using tr tr1 by simp
  have nw': "Write VERSION_FILE_PATH \<notin> set (evs1 @ evs)"
    using nw nw1 by simp
  show ?case
    apply (rule exI [of _ D'], rule exI [of _ w'], rule exI)
    apply (intro conjI allI)
         apply (rule run')
        apply (rule num')
       apply (simp add: nam nam1)
      apply (simp add: ver ver1)
     apply (rule tr')
    apply (rule nw')
    done
qed

lemma handle_bump_all_ok:
  assumes c: "complete_doc D" and D: "version_json (files w) = Some D"
  shows "\<exists>D' w' evs. handle_bump_all E w = (Inr (), w')
      \<and> version_json (files w') = Some D'
      \<and> (\<forall>g p. build_number_of D' g p =
            (if g \<in> set SUPPORTED_FLAVORS \<and> p \<in> set SUPPORTED_PLATFORMS
             then bnd (build_number_of D g p) py_add1
             else build_number_of D g p))
      \<and> (\<forall>g. build_name_of D' g = build_name_of D g)
      \<and> trace w' = trace w @ [Exists VERSION_FILE_PATH, Read VERSION_FILE_PATH] @ evs
           @ [Write VERSION_FILE_PATH,
              Print (package_sign @ '' All versions bumped and saved to version.json'')]
      \<and> Write VERSION_FILE_PATH \<notin> set evs"
proof -
  let ?w0 = "w\<lparr>trace := trace w @ [Exists VERSION_FILE_PATH, Read VERSION_FILE_PATH]\<rparr>"
  have dist: "distinct SUPPORTED_FLAVORS"
    by (simp add: SUPPORTED_FLAVORS_def)
  have pre: "\<forall>f\<in>set SUPPORTED_FLAVORS. has_build_name D f
      \<and> (\<forall>p\<in>set SUPPORTED_PLATFORMS. has_build_number D f p)"
    using c by (simp add: complete_doc_def)
  from bump_flavors_ok [OF dist pre, of E ?w0] obtain D' w1 evs
    where run: "bump_flavors E SUPPORTED_FLAVORS D ?w0 = (Inr D', w1)"
      and num: "\<forall>g p. build_number_of D' g p =
            (if g \<in> set SUPPORTED_FLAVORS \<and> p \<in> set SUPPORTED_PLATFORMS
             then bnd (build_number_of D g p) py_add1
             else build_number_of D g p)"
      and nam: "\<forall>g. build_name_of D' g = build_name_of D g"
      and tr: "trace w1 = trace ?w0 @ evs" and nw: "Write VERSION_FILE_PATH \<notin> set evs"
    by (elim exE conjE)
  let ?w' = "\<lparr>files = (files w1)\<lparr>version_json := Some D'\<rparr>,
     trace = trace w1 @ [Write VERSION_FILE_PATH,
       Print (package_sign @ '' All versions bumped and saved to version.json'')]\<rparr>"
  have all: "handle_bump_all E w = (Inr (), ?w')"
    using run
    by (simp add: handle_bump_all_def seq_def read_version_file_Some [OF D]
        write_version_file_def py_print_def emit_def)
  show ?thesis
    apply (rule exI [of _ D'], rule exI [of _ ?w'], rule exI [of _ evs])
    apply (intro conjI)
         apply (rule all)
        apply simp
       apply (rule num)
      apply (rule nam)
     apply (simp add: tr)
    apply (rule nw)
    done
qed

section \<open>Growing traces\<close>

lemma growsI: "(\<And>w. \<exists>evs. trace (snd (m w)) = trace w @ evs) \<Longrightarrow> grows m"
  by (auto simp add: grows_def prefix_def)

lemma growsD: "grows m \<Longrightarrow> m w = (r, w') \<Longrightarrow> \<exists>evs. trace w' = trace w @ evs"
  by (auto simp add: grows_def prefix_def dest: spec [of _ w])

lemma grows_seq: "grows m \<Longrightarrow> (\<And>a. grows (f a)) \<Longrightarrow> grows (seq m f)"
proof (rule growsI)
  fix w
  assume m: "grows m" and f: "\<And>a. grows (f a)"
  obtain r w1 where mw: "m w = (r, w1)" by (cases "m w")
  from growsD [OF m mw] obtain evs1 where t1: "trace w1 = trace w @ evs1" by blast
  show "\<exists>evs. trace (snd (seq m f w)) = trace w @ evs"
  proof (cases r)
    case (Inl e)
    then show ?thesis using mw t1 by (simp add: seq_def)
  next
    case (Inr a)
    obtain r2 w2 where fw: "f a w1 = (r2, w2)" by (cases "f a w1")
    from growsD [OF f fw] obtain evs2 where "trace w2 = trace w1 @ evs2" by blast
    then show ?thesis using Inr mw t1 fw by (simp add: seq_def)
  qed
qed

lemma grows_pointwise: "(\<And>w. \<exists>m. grows m \<and> g w = m w) \<Longrightarrow> grows g"
  by (metis grows_def)

lemma grows_ret: "grows (ret a)"
  by (rule growsI) (simp add: ret_def)

lemma grows_raise: "grows (py_raise e)"
  by (rule growsI) (simp add: py_raise_def)

lemma grows_exit: "grows (sys_exit n)"
  by (simp add: sys_exit_def grows_raise)

lemma grows_lift: "grows (lift r)"
  by (rule growsI) (simp add: lift_def)

lemma grows_emit: "grows (emit ev)"
  by (rule growsI) (simp add: emit_def)

lemma grows_print: "grows (py_print s)"
  by (simp add: py_print_def grows_emit)

lemma grows_subprocess_run: "grows (subprocess_run E cmd shell)"
  by (rule growsI) (simp add: subprocess_run_def Let_def split: prod.splits)

lemma grows_read_version_file: "grows read_version_file"
  by (rule growsI)
    (simp add: read_version_file_def seq_emit py_raise_def ret_def split: option.splits)



lemma grows_update_pubspec_yaml: "grows (update_pubspec_yaml name num)"
  by (rule growsI) (simp add: update_pubspec_yaml_def py_raise_def Let_def split: option.splits)

lemma grows_update_codemagic_yaml: "grows (update_codemagic_yaml name num)"
  unfolding update_codemagic_yaml_def
  apply (intro grows_seq grows_emit)
  apply (rule growsI)
  apply (simp add: ret_def Let_def split: option.splits)
  done

lemma grows_load_credentials: "grows (load_credentials flavor)"
  by (rule growsI)
    (simp add: load_credentials_def seq_emit seq_def [of "lift _"] lift_def py_raise_def
      py_print_def emit_def split: option.splits sum.splits)

lemma grows_upload_to_google_play: "grows (upload_to_google_play E flavor)"
  unfolding upload_to_google_play_def Let_def
  apply (intro grows_seq grows_emit grows_pointwise)
  subgoal for _ w
    apply (cases "other_paths (files w) (get_aab_path flavor)")
     apply (rule exI, rule conjI)
      prefer 2
      apply simp
     apply (intro grows_seq grows_load_credentials grows_lift grows_subprocess_run grows_print)
    apply (rule exI, rule conjI)
     prefer 2
     apply simp
    apply (rule grows_print)
    done
  done

lemma grows_upload_to_app_store: "grows (upload_to_app_store E flavor)"
  unfolding upload_to_app_store_def Let_def
  apply (intro grows_seq grows_emit grows_pointwise)
  subgoal for _ w
    apply (cases "other_paths (files w) (get_ipa_path flavor)")
     apply (rule exI, rule conjI)
      prefer 2
      apply simp
     apply (intro grows_seq grows_load_credentials grows_lift grows_subprocess_run grows_print)
    apply (rule exI, rule conjI)
     prefer 2
     apply simp
    apply (rule grows_print)
    done
  done

lemma grows_upload: "grows (upload E flavor platform)"
  by (simp add: upload_def grows_upload_to_google_play grows_upload_to_app_store grows_ret)

section \<open>A release that runs to its end\<close>

lemma seq_InrE:
  assumes "seq m f w = (Inr b, w')"
  obtains a w1 where "m w = (Inr a, w1)" and "f a w1 = (Inr b, w')"
  using assms by (auto simp add: seq_def split: prod.splits sum.splits)

lemma argv_shorebird:
  "map (\<lambda>a. the (arg_str a)) (shorebird_cmd flavor platform build_name build_number) =
     [''shorebird'', ''release'', platform, ''--flutter-version=3.29.1'', ''--flavor'', flavor,
      ''-t'', ''lib/main_'' @ flavor @ ''.dart'', ''--build-name='' @ py_str build_name,
      ''--build-number='' @ py_str build_number]"
  "None \<notin> set (map arg_str (shorebird_cmd flavor platform build_name build_number))"
  by (simp_all add: shorebird_cmd_def FLUTTER_VERSION_def)

lemma subprocess_run_shorebird:
  assumes "subprocess_run E (shorebird_cmd f p name num) shell w = (Inr result, w1)"
  shows "trace w1 = trace w @
     [Run [''shorebird'', ''release'', p, ''--flutter-version=3.29.1'', ''--flavor'', f,
      ''-t'', ''lib/main_'' @ f @ ''.dart'', ''--build-name='' @ py_str name,
      ''--build-number='' @ py_str num] shell]"
  using assms argv_shorebird(2) [of f p name num]
  by (auto simp add: subprocess_run_def Let_def argv_shorebird(1) split: prod.splits if_splits)

lemma lift_eq: "lift r w = (Inr a, w1) \<longleftrightarrow> r = Inr a \<and> w1 = w"
  by (auto simp add: lift_def)

lemma print_eq: "py_print s w = (r, w1) \<longleftrightarrow> r = Inr () \<and> w1 = w\<lparr>trace := trace w @ [Print s]\<rparr>"
  by (auto simp add: py_print_def emit_def)

lemma handle_release_normal:
  assumes D: "version_json (files w) = Some D"
    and n: "build_number_of D f p = Inr num"
    and name: "build_name_of D f = Inr name"
    and run: "handle_release E [f, p] w = (Inr (), w')"
  shows "\<exists>new D' pre post old. py_add1 num = Inr new
      \<and> set_build_number D f p new = Inr D'
      \<and> trace w' = trace w @ pre @
          [Run [''shorebird'', ''release'', p, ''--flutter-version=3.29.1'', ''--flavor'', f,
            ''-t'', ''lib/main_'' @ f @ ''.dart'', ''--build-name='' @ py_str name,
            ''--build-number='' @ py_str num] False] @ post @
          [Write VERSION_FILE_PATH, Append CHANGELOG_FILE_PATH,
           Print (check_mark @ '' Released and bumped to '' @ py_str name @ ''+'' @ py_str new)]
      \<and> version_json (files w') = Some D'
      \<and> changelog_md (files w') =
           Some (old @ changelog_entry (now E (length (trace w') - 2)) f p name new)"
proof -
  from n obtain current where cur: "entry_of D f p = Inr current"
    and bn: "getitem current ''build_number'' = Inr num"
    by (auto simp add: build_number_of_def bnd_eq_Inr)
  let ?w1 = "w\<lparr>trace := trace w @ [Exists VERSION_FILE_PATH, Read VERSION_FILE_PATH]\<rparr>"
  let ?run = "Run [''shorebird'', ''release'', p, ''--flutter-version=3.29.1'', ''--flavor'', f,
            ''-t'', ''lib/main_'' @ f @ ''.dart'', ''--build-name='' @ py_str name,
            ''--build-number='' @ py_str num] False"
  note run' = run [unfolded handle_release_def, simplified,
      unfolded seq_def [of read_version_file] read_version_file_Some [OF D], simplified,
      unfolded entry_of_def [symmetric] cur name [unfolded build_name_of_def] bn seq_lift_Inr]
  from run' obtain new wa u1 wb u2 wc result wd u3 we u4 wf u5 wg D' wh u6 wi u7 wj
    where s1: "lift (py_add1 num) ?w1 = (Inr new, wa)"
      and s2: "update_pubspec_yaml name num wa = (Inr u1, wb)"
      and s3: "update_codemagic_yaml name num wb = (Inr u2, wc)"
      and s4: "subprocess_run E (shorebird_cmd f p name num) False wc = (Inr result, wd)"
      and s5: "py_print (stdout result) wd = (Inr u3, we)"
      and s6: "py_print (stderr result) we = (Inr u4, wf)"
      and s7: "upload E f p wf = (Inr u5, wg)"
      and s8: "lift (set_build_number D f p new) wg = (Inr D', wh)"
      and s9: "write_version_file D' wh = (Inr u6, wi)"
      and s10: "append_changelog E f p name new wi = (Inr u7, wj)"
      and s11: "py_print (check_mark @ '' Released and bumped to ''
            @ py_str name @ ''+'' @ py_str new) wj = (Inr (), w')"
    by (elim seq_InrE) (rule that; (assumption | simp))
  from s1 have new: "py_add1 num = Inr new" and wa: "wa = ?w1"
    by (simp_all add: lift_eq)
  from growsD [OF grows_update_pubspec_yaml s2] obtain e1 where t2: "trace wb = trace wa @ e1" ..
  from growsD [OF grows_update_codemagic_yaml s3] obtain e2 where t3: "trace wc = trace wb @ e2" ..
  note t4 = subprocess_run_shorebird [OF s4]
  from s5 have t5: "trace we = trace wd @ [Print (stdout result)]"
    by (simp add: print_eq)
  from s6 have t6: "trace wf = trace we @ [Print (stderr result)]"
    by (simp add: print_eq)
  from growsD [OF grows_upload s7] obtain e3 where t7: "trace wg = trace wf @ e3" ..
  from s8 have D': "set_build_number D f p new = Inr D'" and wh: "wh = wg"
    by (simp_all add: lift_eq)
  from s9 have wi: "wi = \<lparr>files = (files wh)\<lparr>version_json := Some D'\<rparr>,
      trace = trace wh @ [Write VERSION_FILE_PATH]\<rparr>"
    by (simp add: write_version_file_def)
  from s10 have wj: "wj = \<lparr>files = (files wi)\<lparr>changelog_md :=
        Some ((case changelog_md (files wi) of None \<Rightarrow> [] | Some c \<Rightarrow> c)
          @ changelog_entry (now E (length (trace wi))) f p name new)\<rparr>,
      trace = trace wi @ [Append CHANGELOG_FILE_PATH]\<rparr>"
    by (simp add: append_changelog_def Let_def)
  from s11 have w': "w' = wj\<lparr>trace := trace wj @ [Print (check_mark @ '' Released and bumped to ''
            @ py_str name @ ''+'' @ py_str new)]\<rparr>"
    by (simp add: print_eq)
  have tr: "trace w' = trace w @ ([Exists VERSION_FILE_PATH, Read VERSION_FILE_PATH] @ e1 @ e2)
      @ [?run] @ ([Print (stdout result), Print (stderr result)] @ e3)
      @ [Write VERSION_FILE_PATH, Append CHANGELOG_FILE_PATH,
           Print (check_mark @ '' Released and bumped to '' @ py_str name @ ''+'' @ py_str new)]"
    by (simp add: w' wj wi wh t7 t6 t5 t4 t3 t2 wa)
  have ver: "version_json (files w') = Some D'"
    by (simp add: w' wj wi)
  have len: "length (trace w') - 2 = length (trace wi)"
    by (simp add: w' wj)
  have log: "changelog_md (files w') =
      Some ((case changelog_md (files wh) of None \<Rightarrow> [] | Some c \<Rightarrow> c)
        @ changelog_entry (now E (length (trace w') - 2)) f p name new)"
    unfolding len by (simp add: w' wj) (simp add: wi)
  show ?thesis
    apply (rule exI [of _ new], rule exI [of _ D'], rule exI, rule exI, rule exI)
    apply (intro conjI)
        apply (rule new)
       apply (rule D')
      apply (rule tr)
     apply (rule ver)
    apply (rule log)
    done
qed

section \<open>The loops of \<open>handle_release_all\<close>\<close>









section \<open>Runs that differ in exit codes\<close>

lemma same_event_refl: "same_event a a"
  by (cases a) simp_all

lemma agree_refl: "agree w w"
  by (simp add: agree_def list_all2_refl same_event_refl)

lemma agree_length: "agree w1 w2 \<Longrightarrow> length (trace w1) = length (trace w2)"
  by (auto simp add: agree_def dest: list_all2_lengthD)

lemma agree_files: "agree w1 w2 \<Longrightarrow> files w1 = files w2"
  by (simp add: agree_def)

lemma agree_snoc:
  "agree w1 w2 \<Longrightarrow> same_event a b \<Longrightarrow>
     agree (w1\<lparr>trace := trace w1 @ [a]\<rparr>) (w2\<lparr>trace := trace w2 @ [b]\<rparr>)"
  by (simp add: agree_def list_all2_appendI)

lemma similarI:
  assumes "\<And>w1 w2. agree w1 w2 \<Longrightarrow>
     agree (snd (m1 w1)) (snd (m2 w2)) \<and> rel_sum (=) R (fst (m1 w1)) (fst (m2 w2))"
  shows "similar R m1 m2"
  unfolding similar_def using assms by simp

lemma similarD:
  assumes "similar R m1 m2" "agree w1 w2"
  shows "agree (snd (m1 w1)) (snd (m2 w2))" and "rel_sum (=) R (fst (m1 w1)) (fst (m2 w2))"
  using assms unfolding similar_def by simp_all

lemma similar_seq:
  assumes m: "similar R m1 m2" and f: "\<And>a b. R a b \<Longrightarrow> similar S (f1 a) (f2 b)"
  shows "similar S (seq m1 f1) (seq m2 f2)"
proof (rule similarI)
  fix w1 w2
  assume a: "agree w1 w2"
  obtain q1 u1 where m1: "m1 w1 = (q1, u1)" by (cases "m1 w1")
  obtain q2 u2 where m2: "m2 w2 = (q2, u2)" by (cases "m2 w2")
  from similarD [OF m a] m1 m2 have u: "agree u1 u2" and q: "rel_sum (=) R q1 q2"
    by simp_all
  show "agree (snd (seq m1 f1 w1)) (snd (seq m2 f2 w2))
      \<and> rel_sum (=) S (fst (seq m1 f1 w1)) (fst (seq m2 f2 w2))"
  proof (cases q1)
    case (Inl e)
    with q have "q2 = Inl e" by (cases q2) simp_all
    with Inl m1 m2 u show ?thesis by (simp add: seq_def)
  next
    case (Inr x)
    with q obtain y where q2: "q2 = Inr y" and R: "R x y" by (cases q2) simp_all
    from similarD [OF f [OF R] u] Inr q2 m1 m2 show ?thesis by (simp add: seq_def)
  qed
qed

lemma similar_pointwise:
  assumes "\<And>w1 w2. agree w1 w2 \<Longrightarrow> \<exists>m1 m2. similar R m1 m2 \<and> g1 w1 = m1 w1 \<and> g2 w2 = m2 w2"
  shows "similar R g1 g2"
proof (rule similarI)
  fix w1 w2 assume a: "agree w1 w2"
  from assms [OF a] obtain m1 m2 where s: "similar R m1 m2" and e: "g1 w1 = m1 w1" "g2 w2 = m2 w2"
    by (elim exE conjE)
  from similarD [OF s a] show "agree (snd (g1 w1)) (snd (g2 w2))
      \<and> rel_sum (=) R (fst (g1 w1)) (fst (g2 w2))"
    unfolding e by simp
qed

lemma similar_ret: "R a b \<Longrightarrow> similar R (ret a) (ret b)"
  by (rule similarI) (simp add: ret_def)

lemma similar_raise: "similar R (py_raise e) (py_raise e)"
  by (rule similarI) (simp add: py_raise_def)

lemma similar_lift: "similar (=) (lift r) (lift r)"
  by (rule similarI) (simp add: lift_def sum.rel_eq)

lemma similar_emit: "same_event a b \<Longrightarrow> similar (=) (emit a) (emit b)"
  by (rule similarI) (simp add: emit_def agree_snoc)

lemma similar_print: "similar (=) (py_print s) (py_print t)"
  by (simp add: py_print_def similar_emit)

lemma similar_emit_same: "similar (=) (emit a) (emit a)"
  by (simp add: similar_emit same_event_refl)

lemma now_with_codes: "now (with_codes rc E) = now E"
  by (simp add: with_codes_def)

lemma similar_subprocess_run:
  "similar same_output (subprocess_run (with_codes rc E) cmd shell) (subprocess_run E cmd shell)"
proof (rule similarI)
  fix w1 w2
  assume a: "agree w1 w2"
  note l = agree_length [OF a] and f = agree_files [OF a]
  let ?argv = "map (\<lambda>a. the (arg_str a)) cmd"
  obtain r g where p: "process E (length (trace w2)) ?argv shell (files w2) = (r, g)"
    by (cases "process E (length (trace w2)) ?argv shell (files w2)")
  from a have t: "list_all2 same_event (trace w1 @ [Run ?argv shell]) (trace w2 @ [Run ?argv shell])"
    by (simp add: agree_def list_all2_appendI)
  show "agree (snd (subprocess_run (with_codes rc E) cmd shell w1))
          (snd (subprocess_run E cmd shell w2))
      \<and> rel_sum (=) same_output (fst (subprocess_run (with_codes rc E) cmd shell w1))
          (fst (subprocess_run E cmd shell w2))"
  proof (cases "None \<in> set (map arg_str cmd)")
    case True
    then show ?thesis using a by (simp add: subprocess_run_def)
  next
    case False
    then show ?thesis
      using p t l f
      by (cases r) (simp_all add: subprocess_run_def with_codes_def Let_def agree_def same_output_def)
  qed
qed

lemma similar_append_changelog:
  "similar (=) (append_changelog (with_codes rc E) f p name num) (append_changelog E f p name num)"
proof (rule similarI)
  fix w1 w2
  assume a: "agree w1 w2"
  note l = agree_length [OF a] and f = agree_files [OF a]
  from a have "list_all2 same_event (trace w1 @ [Append CHANGELOG_FILE_PATH])
      (trace w2 @ [Append CHANGELOG_FILE_PATH])"
    by (simp add: agree_def list_all2_appendI)
  then show "agree (snd (append_changelog (with_codes rc E) f p name num w1))
          (snd (append_changelog E f p name num w2))
      \<and> rel_sum (=) (=) (fst (append_changelog (with_codes rc E) f p name num w1))
          (fst (append_changelog E f p name num w2))"
    using l f by (simp add: append_changelog_def Let_def now_with_codes agree_def)
qed

lemma similar_write_version_file: "similar (=) (write_version_file D) (write_version_file D)"
proof (rule similarI)
  fix w1 w2
  assume a: "agree w1 w2"
  then show "agree (snd (write_version_file D w1)) (snd (write_version_file D w2))
      \<and> rel_sum (=) (=) (fst (write_version_file D w1)) (fst (write_version_file D w2))"
    by (simp add: write_version_file_def agree_def list_all2_appendI)
qed

lemma similar_update_pubspec_yaml:
  "similar (=) (update_pubspec_yaml name num) (update_pubspec_yaml name num)"
proof (rule similarI)
  fix w1 w2
  assume a: "agree w1 w2"
  then show "agree (snd (update_pubspec_yaml name num w1)) (snd (update_pubspec_yaml name num w2))
      \<and> rel_sum (=) (=) (fst (update_pubspec_yaml name num w1))
          (fst (update_pubspec_yaml name num w2))"
    by (cases "pubspec_yaml (files w2)")
      (simp_all add: update_pubspec_yaml_def py_raise_def Let_def agree_def list_all2_appendI)
qed

lemma similar_read_version_file: "similar (=) read_version_file read_version_file"
proof (rule similarI)
  fix w1 w2
  assume a: "agree w1 w2"
  then show "agree (snd (read_version_file w1)) (snd (read_version_file w2))
      \<and> rel_sum (=) (=) (fst (read_version_file w1)) (fst (read_version_file w2))"
    by (cases "version_json (files w2)")
      (simp_all add: read_version_file_def seq_emit py_raise_def ret_def agree_def
        list_all2_appendI sum.rel_eq)
qed

lemma similar_update_codemagic_yaml:
  "similar (=) (update_codemagic_yaml name num) (update_codemagic_yaml name num)"
proof (rule similarI)
  fix w1 w2
  assume a: "agree w1 w2"
  then show "agree (snd (update_codemagic_yaml name num w1))
          (snd (update_codemagic_yaml name num w2))
      \<and> rel_sum (=) (=) (fst (update_codemagic_yaml name num w1))
          (fst (update_codemagic_yaml name num w2))"
    by (cases "codemagic_yaml (files w2)")
      (simp_all add: update_codemagic_yaml_def seq_emit ret_def Let_def agree_def
        list_all2_appendI)
qed

lemma similar_load_credentials:
  "similar (=) (load_credentials flavor) (load_credentials flavor)"
proof (rule similarI)
  fix w1 w2
  assume a: "agree w1 w2"
  then have f: "files w1 = files w2"
    and t: "list_all2 same_event (trace w1) (trace w2)"
    by (simp_all add: agree_def)
  show "agree (snd (load_credentials flavor w1)) (snd (load_credentials flavor w2))
      \<and> rel_sum (=) (=) (fst (load_credentials flavor w1)) (fst (load_credentials flavor w2))"
  proof (cases "credentials_json (files w2)")
    case None
    then show ?thesis
      using f t
      by (simp add: load_credentials_def seq_emit py_raise_def agree_def list_all2_appendI)
  next
    case (Some data)
    show ?thesis
    proof (cases "py_in flavor data")
      case (Inl e)
      then show ?thesis
        using f t Some
        by (simp add: load_credentials_def seq_emit seq_lift_Inl agree_def list_all2_appendI)
    next
      case (Inr present)
      show ?thesis
      proof (cases "getitem data flavor")
        case (Inl e)
        then show ?thesis
          using f t Some Inr
          by (simp add: load_credentials_def seq_emit seq_lift_Inl seq_lift_Inr py_raise_def
              agree_def list_all2_appendI)
      next
        case creds: (Inr c)
        then show ?thesis
          using f t Some Inr
          by (simp add: load_credentials_def seq_emit seq_print seq_lift_Inr py_raise_def lift_def
              agree_def list_all2_appendI sum.rel_eq)
      qed
    qed
  qed
qed

lemma similar_report:
  "same_output r1 r2 \<Longrightarrow>
   similar (=)
     (seq (py_print (stdout r1)) (\<lambda>_. seq (py_print (stderr r1)) (\<lambda>_. py_print (msg1 r1))))
     (seq (py_print (stdout r2)) (\<lambda>_. seq (py_print (stderr r2)) (\<lambda>_. py_print (msg2 r2))))"
  by (intro similar_seq [OF similar_print] similar_print)

lemma similar_upload_to_google_play:
  "similar (=) (upload_to_google_play (with_codes rc E) flavor) (upload_to_google_play E flavor)"
  unfolding upload_to_google_play_def Let_def
proof (rule similar_seq [OF similar_emit_same], rule similar_pointwise)
  fix a b :: unit and w1 w2
  assume "agree w1 w2"
  then have f: "files w1 = files w2" by (rule agree_files)
  let ?cmd = "\<lambda>json_key. [JStr ''fastlane'', JStr ''supply'',
                  JStr ''--aab'', JStr (get_aab_path flavor),
                  JStr ''--package_name'', JStr (get_package_name flavor),
                  JStr ''--track'', JStr ''production'',
                  JStr ''--json_key'', json_key,
                  JStr ''--skip_upload_metadata'',
                  JStr ''--skip_upload_images'',
                  JStr ''--skip_upload_screenshots'']"
  let ?msg = "\<lambda>result. if returncode result = 0
                    then check_mark @ '' Uploaded to Google Play Store''
                    else cross_mark @ '' Google Play upload failed''"
  let ?go = "\<lambda>E. seq (load_credentials flavor) (\<lambda>creds.
          seq (lift (getitem creds ''google_play'')) (\<lambda>json_key.
          seq (subprocess_run E (?cmd json_key) False) (\<lambda>result.
          seq (py_print (stdout result)) (\<lambda>_.
          seq (py_print (stderr result)) (\<lambda>_.
          py_print (?msg result))))))"
  let ?stop = "py_print (cross_mark @ '' AAB not found. Did you run `flutter build appbundle`?'')"
  have go: "similar (=) (?go (with_codes rc E)) (?go E)"
    apply (rule similar_seq [OF similar_load_credentials])
    apply hypsubst
    apply (rule similar_seq [OF similar_lift])
    apply hypsubst
    apply (rule similar_seq [OF similar_subprocess_run])
    apply (erule similar_report)
    done
  show "\<exists>m1 m2. similar (=) m1 m2
      \<and> (if \<not> other_paths (files w1) (get_aab_path flavor) then ?stop w1
          else ?go (with_codes rc E) w1) = m1 w1
      \<and> (if \<not> other_paths (files w2) (get_aab_path flavor) then ?stop w2
          else ?go E w2) = m2 w2"
  proof (cases "other_paths (files w2) (get_aab_path flavor)")
    case True
    show ?thesis
      by (rule exI [of _ "?go (with_codes rc E)"], rule exI [of _ "?go E"])
        (simp add: f True go)
  next
    case False
    show ?thesis
      by (rule exI [of _ ?stop], rule exI [of _ ?stop]) (simp add: f False similar_print)
  qed
qed

lemma similar_upload_to_app_store:
  "similar (=) (upload_to_app_store (with_codes rc E) flavor) (upload_to_app_store E flavor)"
  unfolding upload_to_app_store_def Let_def
proof (rule similar_seq [OF similar_emit_same], rule similar_pointwise)
  fix a b :: unit and w1 w2
  assume "agree w1 w2"
  then have f: "files w1 = files w2" by (rule agree_files)
  let ?cmd = "\<lambda>api_key_path. [JStr ''fastlane'', JStr ''deliver'',
                  JStr ''--ipa'', JStr (get_ipa_path flavor),
                  JStr ''--skip_metadata'',
                  JStr ''--skip_screenshots'',
                  JStr ''--submit_for_review'',
                  JStr ''--automatic_release'',
                  JStr ''--api_key_path'', api_key_path]"
  let ?msg = "\<lambda>result. if returncode result = 0
                    then check_mark @ '' Uploaded to App Store Connect''
                    else cross_mark @ '' App Store upload failed''"
  let ?go = "\<lambda>E. seq (load_credentials flavor) (\<lambda>creds.
          seq (lift (getitem creds ''app_store_key_path'')) (\<lambda>api_key_path.
          seq (subprocess_run E (?cmd api_key_path) False) (\<lambda>result.
          seq (py_print (stdout result)) (\<lambda>_.
          seq (py_print (stderr result)) (\<lambda>_.
          py_print (?msg result))))))"
  let ?stop = "py_print (cross_mark @ '' IPA not found at '' @ get_ipa_path flavor)"
  have go: "similar (=) (?go (with_codes rc E)) (?go E)"
    apply (rule similar_seq [OF similar_load_credentials])
    apply hypsubst
    apply (rule similar_seq [OF similar_lift])
    apply hypsubst
    apply (rule similar_seq [OF similar_subprocess_run])
    apply (erule similar_report)
    done
  show "\<exists>m1 m2. similar (=) m1 m2
      \<and> (if \<not> other_paths (files w1) (get_ipa_path flavor) then ?stop w1
          else ?go (with_codes rc E) w1) = m1 w1
      \<and> (if \<not> other_paths (files w2) (get_ipa_path flavor) then ?stop w2
          else ?go E w2) = m2 w2"
  proof (cases "other_paths (files w2) (get_ipa_path flavor)")
    case True
    show ?thesis
      by (rule exI [of _ "?go (with_codes rc E)"], rule exI [of _ "?go E"])
        (simp add: f True go)
  next
    case False
    show ?thesis
      by (rule exI [of _ ?stop], rule exI [of _ ?stop]) (simp add: f False similar_print)
  qed
qed

lemma similar_upload:
  "similar (=) (upload (with_codes rc E) flavor platform) (upload E flavor platform)"
  by (simp add: upload_def similar_upload_to_google_play similar_upload_to_app_store similar_ret)

lemma similar_handle_release:
  "similar (=) (handle_release (with_codes rc E) args) (handle_release E args)"
proof (cases "length args < 2")
  case True
  then show ?thesis
    by (simp add: handle_release_def sys_exit_def)
      (intro similar_seq [OF similar_print] similar_raise)
next
  case False
  show ?thesis
  proof (cases "\<exists>f p. args = [f, p]")
    case False
    with \<open>\<not> length args < 2\<close> have "handle_release E' args = py_raise ValueError" for E'
      by (auto simp add: handle_release_def split: list.splits)
    then show ?thesis by (simp add: similar_raise)
  next
    case True
    then obtain f p where args: "args = [f, p]" by (elim exE)
    show ?thesis
      unfolding args handle_release_def
      apply simp
      apply (rule similar_seq [OF similar_read_version_file], hypsubst)
      apply (rule similar_seq [OF similar_lift], hypsubst)
      apply (rule similar_seq [OF similar_lift], hypsubst)
      apply (rule similar_seq [OF similar_lift], hypsubst)
      apply (rule similar_seq [OF similar_lift], hypsubst)
      apply (rule similar_seq [OF similar_update_pubspec_yaml])
      apply (rule similar_seq [OF similar_update_codemagic_yaml])
      apply (rule similar_seq [OF similar_subprocess_run])
      apply (rule similar_seq [OF similar_print])
      apply (rule similar_seq [OF similar_print])
      apply (rule similar_seq [OF similar_upload])
      apply (rule similar_seq [OF similar_lift], hypsubst)
      apply (rule similar_seq [OF similar_write_version_file])
      apply (rule similar_seq [OF similar_append_changelog])
      apply (rule similar_print)
      done
  qed
qed

section \<open>The command line of an upload\<close>

lemma load_credentials_no_run:
  assumes "load_credentials flavor w = (r, w')"
  shows "\<exists>evs. trace w' = trace w @ evs \<and> (\<forall>argv sh. Run argv sh \<notin> set evs)"
  using assms
  by (auto simp add: load_credentials_def seq_emit seq_print seq_def [of "lift _"] lift_def
      py_raise_def split: option.splits sum.splits if_splits)

lemma subprocess_run_trace:
  assumes "subprocess_run E cmd shell w = (r, w')"
  shows "trace w' = trace w \<or> trace w' = trace w @ [Run (map (\<lambda>a. the (arg_str a)) cmd) shell]"
  using assms
  by (auto simp add: subprocess_run_def Let_def split: if_splits prod.splits)

lemma upload_to_google_play_runs:
  assumes up: "upload_to_google_play E flavor w = (r, w')"
    and ev: "Run argv sh \<in> set (drop (length (trace w)) (trace w'))"
  shows "take 6 argv = [''fastlane'', ''supply'', ''--aab'', get_aab_path flavor,
      ''--package_name'', get_package_name flavor]"
proof (cases "other_paths (files w) (get_aab_path flavor)")
  case False
  with up have "trace w' = trace w @ [Exists (get_aab_path flavor),
      Print (cross_mark @ '' AAB not found. Did you run `flutter build appbundle`?'')]"
    by (auto simp add: upload_to_google_play_def Let_def seq_emit py_print_def emit_def)
  with ev show ?thesis by simp
next
  case True
  let ?w1 = "w\<lparr>trace := trace w @ [Exists (get_aab_path flavor)]\<rparr>"
  let ?cmd = "\<lambda>json_key. [JStr ''fastlane'', JStr ''supply'',
                  JStr ''--aab'', JStr (get_aab_path flavor),
                  JStr ''--package_name'', JStr (get_package_name flavor),
                  JStr ''--track'', JStr ''production'',
                  JStr ''--json_key'', json_key,
                  JStr ''--skip_upload_metadata'',
                  JStr ''--skip_upload_images'',
                  JStr ''--skip_upload_screenshots'']"
  obtain rc w2 where lc: "load_credentials flavor ?w1 = (rc, w2)"
    by (cases "load_credentials flavor ?w1")
  from load_credentials_no_run [OF lc] obtain e1
    where t2: "trace w2 = trace w @ [Exists (get_aab_path flavor)] @ e1"
      and n1: "\<forall>argv sh. Run argv sh \<notin> set e1"
    by auto
  show ?thesis
  proof (cases rc)
    case (Inl e)
    with up True lc have "w' = w2"
      by (simp add: upload_to_google_play_def Let_def seq_emit seq_def [of "load_credentials _"])
    with ev t2 n1 show ?thesis by simp
  next
    case creds: (Inr c)
    show ?thesis
    proof (cases "getitem c ''google_play''")
      case (Inl e)
      with up True lc creds have "w' = w2"
        by (simp add: upload_to_google_play_def Let_def seq_emit seq_lift_Inl
            seq_def [of "load_credentials _"])
      with ev t2 n1 show ?thesis by simp
    next
      case key: (Inr k)
      obtain rr w3 where sr: "subprocess_run E (?cmd k) False w2 = (rr, w3)"
        by (cases "subprocess_run E (?cmd k) False w2")
      from up True lc creds key sr
      have "\<exists>e3. trace w' = trace w3 @ e3 \<and> (\<forall>argv sh. Run argv sh \<notin> set e3)"
        by (cases rr)
          (auto simp add: upload_to_google_play_def Let_def seq_emit seq_lift_Inr seq_print
            seq_def [of "load_credentials _"] seq_def [of "subprocess_run _ _ _"]
            py_print_def emit_def)
      then obtain e3 where t4: "trace w' = trace w3 @ e3"
        and n3: "\<forall>argv sh. Run argv sh \<notin> set e3"
        by auto
      from subprocess_run_trace [OF sr] ev t2 t4 n1 n3
      have "argv = map (\<lambda>a. the (arg_str a)) (?cmd k)"
        by auto
      then show ?thesis by simp
    qed
  qed
qed

section \<open>Package names\<close>

text \<open>
  Claim C10. For a flavor that is not one of the supported flavors the package-name
  lookup does not fail: it answers the identifier of workplacebyls,
  \<open>com.locationsolutions.workplacebyls\<close>. So whenever the Google Play upload for such a
  flavor runs the upload program, the command line names that package:
  it starts with \<open>fastlane supply --aab <artifact> --package_name
  com.locationsolutions.workplacebyls\<close>.
\<close>

theorem get_package_name_default:
  assumes "flavor \<notin> set SUPPORTED_FLAVORS"
  shows "get_package_name flavor = ''com.locationsolutions.workplacebyls''
    \<and> (\<forall>E w r w' argv sh.
          upload_to_google_play E flavor w = (r, w')
          \<and> Run argv sh \<in> set (drop (length (trace w)) (trace w')) \<longrightarrow>
          take 6 argv = [''fastlane'', ''supply'', ''--aab'', get_aab_path flavor,
            ''--package_name'', ''com.locationsolutions.workplacebyls''])"
proof -
  have name: "get_package_name flavor = ''com.locationsolutions.workplacebyls''"
    using assms by (simp add: get_package_name_def SUPPORTED_FLAVORS_def)
  have "take 6 argv = [''fastlane'', ''supply'', ''--aab'', get_aab_path flavor,
            ''--package_name'', ''com.locationsolutions.workplacebyls'']"
    if "upload_to_google_play E flavor w = (r, w')"
      and "Run argv sh \<in> set (drop (length (trace w)) (trace w'))"
    for E w r w' argv sh
    using upload_to_google_play_runs [OF that] by (simp only: name)
  with name show ?thesis
    by (intro conjI allI impI) (simp, elim conjE)
qed

theorem get_package_name_default_witness:
  "''demo'' \<notin> set SUPPORTED_FLAVORS
   \<and> get_package_name ''demo'' = ''com.locationsolutions.workplacebyls''
   \<and> Run [''fastlane'', ''supply'', ''--aab'',
           ''build/app/outputs/bundle/demoRelease/app-demo-release.aab'',
           ''--package_name'', ''com.locationsolutions.workplacebyls'',
           ''--track'', ''production'', ''--json_key'', ''keys/play.json'',
           ''--skip_upload_metadata'', ''--skip_upload_images'',
           ''--skip_upload_screenshots''] False
       \<in> set (drop (length (trace example_unknown_world))
            (trace (snd (upload_to_google_play example_env ''demo'' example_unknown_world))))
   \<and> take 6 [''fastlane'', ''supply'', ''--aab'',
           ''build/app/outputs/bundle/demoRelease/app-demo-release.aab'',
           ''--package_name'', ''com.locationsolutions.workplacebyls'',
           ''--track'', ''production'', ''--json_key'', ''keys/play.json'',
           ''--skip_upload_metadata'', ''--skip_upload_images'',
           ''--skip_upload_screenshots''] =
       [''fastlane'', ''supply'', ''--aab'', get_aab_path ''demo'',
        ''--package_name'', ''com.locationsolutions.workplacebyls'']"
proof -
  let ?u = "upload_to_google_play example_env ''demo'' example_unknown_world"
  let ?argv = "[''fastlane'', ''supply'', ''--aab'',
           ''build/app/outputs/bundle/demoRelease/app-demo-release.aab'',
           ''--package_name'', ''com.locationsolutions.workplacebyls'',
           ''--track'', ''production'', ''--json_key'', ''keys/play.json'',
           ''--skip_upload_metadata'', ''--skip_upload_images'',
           ''--skip_upload_screenshots'']"
  have h: "''demo'' \<notin> set SUPPORTED_FLAVORS"
    by (simp add: SUPPORTED_FLAVORS_def)
  have run: "?u = (fst ?u, snd ?u)"
    by simp
  have ev: "Run ?argv False \<in> set (drop (length (trace example_unknown_world)) (trace (snd ?u)))"
    by code_simp
  note d = get_package_name_default [OF h]
  have name: "get_package_name ''demo'' = ''com.locationsolutions.workplacebyls''"
    by (rule d [THEN conjunct1])
  have cmd: "take 6 ?argv = [''fastlane'', ''supply'', ''--aab'', get_aab_path ''demo'',
        ''--package_name'', ''com.locationsolutions.workplacebyls'']"
    by (rule d [THEN conjunct2, rule_format, OF conjI [OF run ev]])
  show ?thesis
    by (intro conjI h name ev cmd)
qed

section \<open>Rejected arguments\<close>

text \<open>
  Claim C5. When \<open>bump\<close> is given a flavor that is not supported or a platform that is
  not supported, the workflow prints an error and leaves through \<open>sys.exit(1)\<close>, so the
  process ends with status 1. The only thing it has done by then is the print: the
  version store is neither looked for, nor read, nor written, and no file has changed.
  The command line \<open>bump <flavor> <platform>\<close> reaches this workflow unless one of the
  two words is \<open>--help\<close>.
\<close>

theorem handle_bump_invalid:
  assumes "flavor \<notin> set SUPPORTED_FLAVORS \<or> platform \<notin> set SUPPORTED_PLATFORMS"
  shows "handle_bump E [flavor, platform] w =
           (Inl (SystemExit 1),
            w\<lparr>trace := trace w @ [Print (cross_mark @ '' Invalid flavor or platform.'')]\<rparr>)
         \<and> exit_status (fst (handle_bump E [flavor, platform] w)) = 1
         \<and> files (snd (handle_bump E [flavor, platform] w)) = files w
         \<and> (flavor \<noteq> ''--help'' \<and> platform \<noteq> ''--help'' \<longrightarrow>
              main E [''bump'', flavor, platform] w = handle_bump E [flavor, platform] w)"
proof -
  have "handle_bump E [flavor, platform] w =
           (Inl (SystemExit 1),
            w\<lparr>trace := trace w @ [Print (cross_mark @ '' Invalid flavor or platform.'')]\<rparr>)"
    using assms by (auto simp add: handle_bump_def seq_print sys_exit_def py_raise_def)
  then show ?thesis
    by (simp add: main_def)
qed

theorem handle_bump_invalid_witness:
  "''badflavor'' \<notin> set SUPPORTED_FLAVORS
   \<and> handle_bump example_env [''badflavor'', ''android''] example_world =
       (Inl (SystemExit 1),
        \<lparr>files = example_files,
         trace = [Print (cross_mark @ '' Invalid flavor or platform.'')]\<rparr>)
   \<and> exit_status (fst (handle_bump example_env [''badflavor'', ''android''] example_world)) = 1
   \<and> main example_env [''bump'', ''badflavor'', ''android''] example_world =
       handle_bump example_env [''badflavor'', ''android''] example_world"
proof -
  have h: "''badflavor'' \<notin> set SUPPORTED_FLAVORS"
    by (simp add: SUPPORTED_FLAVORS_def)
  then have h': "''badflavor'' \<notin> set SUPPORTED_FLAVORS \<or> ''android'' \<notin> set SUPPORTED_PLATFORMS"
    by simp
  show ?thesis
    using h handle_bump_invalid [OF h', of example_env example_world]
    by (simp add: example_world_def)
qed

section \<open>Uploads without an artifact\<close>

text \<open>
  Claim C7. When the artifact the upload expects (the AAB for Google Play, the IPA for
  the App Store) does not exist, the upload prints a message and returns: it has looked
  for the artifact and printed, and nothing else. No credentials are loaded, no program
  is run, no exception is raised, and this holds for every flavor.
\<close>

theorem upload_missing_artifact:
  "(\<not> other_paths (files w) (get_aab_path flavor) \<longrightarrow>
      upload_to_google_play E flavor w =
        (Inr (), w\<lparr>trace := trace w @
           [Exists (get_aab_path flavor),
            Print (cross_mark @ '' AAB not found. Did you run `flutter build appbundle`?'')]\<rparr>))
   \<and> (\<not> other_paths (files w) (get_ipa_path flavor) \<longrightarrow>
      upload_to_app_store E flavor w =
        (Inr (), w\<lparr>trace := trace w @
           [Exists (get_ipa_path flavor),
            Print (cross_mark @ '' IPA not found at '' @ get_ipa_path flavor)]\<rparr>))"
  by (simp add: upload_to_google_play_def upload_to_app_store_def Let_def seq_emit
      py_print_def emit_def)

theorem upload_missing_artifact_witness:
  "\<not> other_paths (files example_world) (get_aab_path ''tiabytsp'')
   \<and> \<not> other_paths (files example_world) (get_ipa_path ''tiabytsp'')
   \<and> upload_to_google_play example_env ''tiabytsp'' example_world =
        (Inr (), \<lparr>files = example_files, trace =
           [Exists ''build/app/outputs/bundle/tiabytspRelease/app-tiabytsp-release.aab'',
            Print (cross_mark @ '' AAB not found. Did you run `flutter build appbundle`?'')]\<rparr>)
   \<and> upload_to_app_store example_env ''tiabytsp'' example_world =
        (Inr (), \<lparr>files = example_files, trace =
           [Exists ''build/ios/ipa/TIA by TSP.ipa'',
            Print (cross_mark @ '' IPA not found at build/ios/ipa/TIA by TSP.ipa'')]\<rparr>)"
proof -
  have h: "\<not> other_paths (files example_world) (get_aab_path ''tiabytsp'')"
    "\<not> other_paths (files example_world) (get_ipa_path ''tiabytsp'')"
    by (simp_all add: example_world_def example_files_def)
  have p: "get_aab_path ''tiabytsp'' =
      ''build/app/outputs/bundle/tiabytspRelease/app-tiabytsp-release.aab''"
    "get_ipa_path ''tiabytsp'' = ''build/ios/ipa/TIA by TSP.ipa''"
    by (simp_all add: get_aab_path_def get_ipa_path_def)
  show ?thesis
    using h upload_missing_artifact [of example_world "''tiabytsp''" example_env]
    by (simp add: p example_world_def)
qed

section \<open>Bumping one pair\<close>

text \<open>
  Claim C3. For a supported flavor and platform whose build number in the stored
  document is the integer \<open>n\<close>, \<open>bump\<close> returns normally and the document it has stored
  holds \<open>n + 1\<close> for that pair and the same build name for the flavor.
\<close>

theorem bump_increments:
  assumes "flavor \<in> set SUPPORTED_FLAVORS" "platform \<in> set SUPPORTED_PLATFORMS"
    and "version_json (files w) = Some D"
    and "build_number_of D flavor platform = Inr (JInt n)"
    and "build_name_of D flavor = Inr name"
  shows "\<exists>w' D'. handle_bump E [flavor, platform] w = (Inr (), w')
           \<and> version_json (files w') = Some D'
           \<and> build_number_of D' flavor platform = Inr (JInt (n + 1))
           \<and> build_name_of D' flavor = Inr name"
proof -
  obtain D' where D': "set_build_number D flavor platform (JInt (n + 1)) = Inr D'"
    using set_build_number_total [OF assms(4)] by blast
  have "platform \<noteq> ''build_name''"
    using assms(2) by (auto simp add: SUPPORTED_PLATFORMS_def)
  then have "build_name_of D' flavor = Inr name"
    using set_build_number_reads(3) [OF D', of "''build_name''" flavor] assms(5)
    by (simp add: build_name_of_def)
  then show ?thesis
    using handle_bump_ok [OF assms D'] set_build_number_reads(1) [OF D'] by simp
qed

theorem bump_increments_witness:
  "''workplacebyls'' \<in> set SUPPORTED_FLAVORS \<and> ''android'' \<in> set SUPPORTED_PLATFORMS
   \<and> version_json (files example_world) = Some example_doc
   \<and> build_number_of example_doc ''workplacebyls'' ''android'' = Inr (JInt 5)
   \<and> build_name_of example_doc ''workplacebyls'' = Inr (JStr ''1.2.0'')
   \<and> (\<exists>w' D'. handle_bump example_env [''workplacebyls'', ''android''] example_world = (Inr (), w')
         \<and> version_json (files w') = Some D'
         \<and> build_number_of D' ''workplacebyls'' ''android'' = Inr (JInt 6)
         \<and> build_name_of D' ''workplacebyls'' = Inr (JStr ''1.2.0''))"
  using example_doc_reads
    bump_increments [OF example_doc_reads(6) example_doc_reads(7) example_doc_reads(5)
      example_doc_reads(1) example_doc_reads(3), of example_env]
  by simp

text \<open>
  Claim C9. For a supported flavor and platform, \<open>bump\<close> changes nothing in the stored
  document but that pair's build number: the record of every other flavor, every other
  entry of the same flavor (the build number of its other platform among them), every
  other key beside the build number, and the build name of every flavor read the same
  before and after.
\<close>

theorem bump_frame:
  assumes "flavor \<in> set SUPPORTED_FLAVORS" "platform \<in> set SUPPORTED_PLATFORMS"
    and "version_json (files w) = Some D"
    and "build_number_of D flavor platform = Inr (JInt n)"
    and "build_name_of D flavor = Inr name"
  shows "\<exists>w' D'. handle_bump E [flavor, platform] w = (Inr (), w')
           \<and> version_json (files w') = Some D'
           \<and> (\<forall>f. f \<noteq> flavor \<longrightarrow> getitem D' f = getitem D f)
           \<and> (\<forall>f k. k \<noteq> platform \<longrightarrow> entry_of D' f k = entry_of D f k)
           \<and> (\<forall>f p. f \<noteq> flavor \<or> p \<noteq> platform \<longrightarrow>
                build_number_of D' f p = build_number_of D f p)
           \<and> (\<forall>f p k. k \<noteq> ''build_number'' \<longrightarrow>
                bnd (entry_of D' f p) (\<lambda>c. getitem c k) = bnd (entry_of D f p) (\<lambda>c. getitem c k))
           \<and> (\<forall>f. build_name_of D' f = build_name_of D f)"
proof -
  obtain D' where D': "set_build_number D flavor platform (JInt (n + 1)) = Inr D'"
    using set_build_number_total [OF assms(4)] by blast
  have "platform \<noteq> ''build_name''"
    using assms(2) by (auto simp add: SUPPORTED_PLATFORMS_def)
  then have name': "build_name_of D' f = build_name_of D f" for f
    using set_build_number_reads(3) [OF D', of "''build_name''" f]
    by (simp add: build_name_of_def)
  show ?thesis
    using handle_bump_ok [OF assms D'] set_build_number_reads(2-5) [OF D'] name'
    by simp
qed

theorem bump_frame_witness:
  "''workplacebyls'' \<in> set SUPPORTED_FLAVORS \<and> ''android'' \<in> set SUPPORTED_PLATFORMS
   \<and> version_json (files example_world) = Some example_doc
   \<and> build_number_of example_doc ''workplacebyls'' ''android'' = Inr (JInt 5)
   \<and> build_name_of example_doc ''workplacebyls'' = Inr (JStr ''1.2.0'')
   \<and> (\<exists>w' D'. handle_bump example_env [''workplacebyls'', ''android''] example_world = (Inr (), w')
         \<and> version_json (files w') = Some D'
         \<and> getitem D' ''tiabytsp'' = Inr example_entry
         \<and> build_number_of D' ''workplacebyls'' ''ios'' = Inr (JInt 5)
         \<and> build_name_of D' ''workplacebyls'' = Inr (JStr ''1.2.0''))"
proof -
  note frame = bump_frame [OF example_doc_reads(6) example_doc_reads(7) example_doc_reads(5)
      example_doc_reads(1) example_doc_reads(3), of example_env]
  from frame obtain w' where "\<exists>D'. handle_bump example_env [''workplacebyls'', ''android''] example_world = (Inr (), w')
           \<and> version_json (files w') = Some D'
           \<and> (\<forall>f. f \<noteq> ''workplacebyls'' \<longrightarrow> getitem D' f = getitem example_doc f)
           \<and> (\<forall>f k. k \<noteq> ''android'' \<longrightarrow> entry_of D' f k = entry_of example_doc f k)
           \<and> (\<forall>f p. f \<noteq> ''workplacebyls'' \<or> p \<noteq> ''android'' \<longrightarrow>
                build_number_of D' f p = build_number_of example_doc f p)
           \<and> (\<forall>f p k. k \<noteq> ''build_number'' \<longrightarrow>
                bnd (entry_of D' f p) (\<lambda>c. getitem c k) = bnd (entry_of example_doc f p) (\<lambda>c. getitem c k))
           \<and> (\<forall>f. build_name_of D' f = build_name_of example_doc f)" ..
  then obtain D' where run: "handle_bump example_env [''workplacebyls'', ''android''] example_world = (Inr (), w')"
    and D': "version_json (files w') = Some D'"
    and other: "\<forall>f. f \<noteq> ''workplacebyls'' \<longrightarrow> getitem D' f = getitem example_doc f"
    and numbers: "\<forall>f p. f \<noteq> ''workplacebyls'' \<or> p \<noteq> ''android'' \<longrightarrow>
                build_number_of D' f p = build_number_of example_doc f p"
    and names: "\<forall>f. build_name_of D' f = build_name_of example_doc f"
    by (elim exE conjE)
  have ne: "''tiabytsp'' \<noteq> ''workplacebyls''" by simp
  have a: "getitem D' ''tiabytsp'' = Inr example_entry"
    using other [rule_format, OF ne] example_doc_reads(4) by simp
  have ne': "''workplacebyls'' \<noteq> ''workplacebyls'' \<or> ''ios'' \<noteq> ''android''" by simp
  have b: "build_number_of D' ''workplacebyls'' ''ios'' = Inr (JInt 5)"
    using numbers [rule_format, OF ne'] example_doc_reads(2) by simp
  have c: "build_name_of D' ''workplacebyls'' = Inr (JStr ''1.2.0'')"
    using names [rule_format, of "''workplacebyls''"] example_doc_reads(3) by simp
  have ex: "\<exists>w' D'. handle_bump example_env [''workplacebyls'', ''android''] example_world = (Inr (), w')
         \<and> version_json (files w') = Some D'
         \<and> getitem D' ''tiabytsp'' = Inr example_entry
         \<and> build_number_of D' ''workplacebyls'' ''ios'' = Inr (JInt 5)
         \<and> build_name_of D' ''workplacebyls'' = Inr (JStr ''1.2.0'')"
    by (rule exI [of _ w'], rule exI [of _ D']) (intro conjI run D' a b c)
  show ?thesis
    by (intro conjI example_doc_reads ex)
qed

section \<open>The two patchers\<close>

text \<open>
  Claim C8. Both patchers write one string for every line they have read, in the same
  order: the replacement when the line matches (it starts with \<open>version:\<close> in the
  manifest; it contains \<open>BUILD_NAME\<close>, or else \<open>BUILD_NUMBER\<close>, in the CI descriptor) and
  the line itself otherwise. No other file changes, and a file none of whose lines
  matches keeps its text. When the CI descriptor is absent its patcher looks for the
  file and returns, without printing.
\<close>

theorem patchers_frame:
  "(pubspec_yaml (files w) = Some text \<longrightarrow>
      (\<exists>w' written. update_pubspec_yaml build_name build_number w = (Inr (), w')
         \<and> files w' = (files w)\<lparr>pubspec_yaml := Some (concat written)\<rparr>
         \<and> length written = length (readlines text)
         \<and> (\<forall>i < length written. written ! i =
               (if startswith (readlines text ! i) ''version:''
                then version_line build_name build_number else readlines text ! i))
         \<and> ((\<forall>line \<in> set (readlines text). \<not> startswith line ''version:'') \<longrightarrow>
               files w' = files w)))
   \<and> (codemagic_yaml (files w) = Some text \<longrightarrow>
      (\<exists>w' written. update_codemagic_yaml build_name build_number w = (Inr (), w')
         \<and> files w' = (files w)\<lparr>codemagic_yaml := Some (concat written)\<rparr>
         \<and> length written = length (readlines text)
         \<and> (\<forall>i < length written. written ! i =
               (if contains ''BUILD_NAME'' (readlines text ! i) then build_name_line build_name
                else if contains ''BUILD_NUMBER'' (readlines text ! i)
                  then build_number_line build_number
                else readlines text ! i))
         \<and> ((\<forall>line \<in> set (readlines text).
                 \<not> contains ''BUILD_NAME'' line \<and> \<not> contains ''BUILD_NUMBER'' line) \<longrightarrow>
               files w' = files w)))
   \<and> (codemagic_yaml (files w) = None \<longrightarrow>
        update_codemagic_yaml build_name build_number w =
          (Inr (), w\<lparr>trace := trace w @ [Exists ''codemagic.yaml'']\<rparr>))"
proof (intro conjI impI)
  assume t: "pubspec_yaml (files w) = Some text"
  let ?written = "map (pubspec_line build_name build_number) (readlines text)"
  have run: "update_pubspec_yaml build_name build_number w =
      (Inr (), \<lparr>files = (files w)\<lparr>pubspec_yaml := Some (concat ?written)\<rparr>,
        trace = trace w @ [Read ''pubspec.yaml'', Write ''pubspec.yaml'',
          Print (memo_sign @ '' Updated pubspec.yaml with version: ''
            @ py_str build_name @ ''+'' @ py_str build_number)]\<rparr>)"
    using t by (simp add: update_pubspec_yaml_def Let_def)
  have same: "?written = readlines text"
    if "\<forall>line \<in> set (readlines text). \<not> startswith line ''version:''"
    using that by (intro map_unchanged) (simp add: pubspec_line_def)
  show "\<exists>w' written. update_pubspec_yaml build_name build_number w = (Inr (), w')
         \<and> files w' = (files w)\<lparr>pubspec_yaml := Some (concat written)\<rparr>
         \<and> length written = length (readlines text)
         \<and> (\<forall>i < length written. written ! i =
               (if startswith (readlines text ! i) ''version:''
                then version_line build_name build_number else readlines text ! i))
         \<and> ((\<forall>line \<in> set (readlines text). \<not> startswith line ''version:'') \<longrightarrow>
               files w' = files w)"
    apply (rule exI, rule exI [of _ ?written])
    apply (intro conjI impI)
        apply (rule run)
       apply simp
      apply simp
     apply (simp add: pubspec_line_def)
    apply (simp add: same concat_readlines fs_same_pubspec [OF t])
    done
next
  assume t: "codemagic_yaml (files w) = Some text"
  let ?written = "map (codemagic_line build_name build_number) (readlines text)"
  have run: "update_codemagic_yaml build_name build_number w =
      (Inr (), \<lparr>files = (files w)\<lparr>codemagic_yaml := Some (concat ?written)\<rparr>,
        trace = trace w @ [Exists ''codemagic.yaml'', Read ''codemagic.yaml'',
          Write ''codemagic.yaml'',
          Print (memo_sign @ '' Updated codemagic.yaml with BUILD_NAME and BUILD_NUMBER'')]\<rparr>)"
    using t by (simp add: update_codemagic_yaml_def seq_emit Let_def)
  have same: "?written = readlines text"
    if "\<forall>line \<in> set (readlines text).
          \<not> contains ''BUILD_NAME'' line \<and> \<not> contains ''BUILD_NUMBER'' line"
    using that by (intro map_unchanged) (simp add: codemagic_line_def)
  show "\<exists>w' written. update_codemagic_yaml build_name build_number w = (Inr (), w')
         \<and> files w' = (files w)\<lparr>codemagic_yaml := Some (concat written)\<rparr>
         \<and> length written = length (readlines text)
         \<and> (\<forall>i < length written. written ! i =
               (if contains ''BUILD_NAME'' (readlines text ! i) then build_name_line build_name
                else if contains ''BUILD_NUMBER'' (readlines text ! i)
                  then build_number_line build_number
                else readlines text ! i))
         \<and> ((\<forall>line \<in> set (readlines text).
                 \<not> contains ''BUILD_NAME'' line \<and> \<not> contains ''BUILD_NUMBER'' line) \<longrightarrow>
               files w' = files w)"
    apply (rule exI, rule exI [of _ ?written])
    apply (intro conjI impI)
        apply (rule run)
       apply simp
      apply simp
     apply (simp add: codemagic_line_def)
    apply (simp add: same concat_readlines fs_same_codemagic [OF t])
    done
next
  assume "codemagic_yaml (files w) = None"
  then show "update_codemagic_yaml build_name build_number w =
          (Inr (), w\<lparr>trace := trace w @ [Exists ''codemagic.yaml'']\<rparr>)"
    by (simp add: update_codemagic_yaml_def seq_emit ret_def)
qed

theorem patchers_frame_witness:
  "pubspec_yaml (files example_world) = Some (''name: app'' @ newline @ ''version: 1.0.0+1'' @ newline)
   \<and> (\<exists>w' written. update_pubspec_yaml (JStr ''1.2.0'') (JInt 5) example_world = (Inr (), w')
         \<and> files w' = example_files\<lparr>pubspec_yaml := Some (concat written)\<rparr>
         \<and> length written = 2
         \<and> written ! 0 = ''name: app'' @ newline
         \<and> written ! 1 = ''version: 1.2.0+5'' @ newline)
   \<and> codemagic_yaml (files example_ci_world) =
        Some (''vars:'' @ newline @ ''  BUILD_NAME: x'' @ newline @ ''  BUILD_NUMBER: y'' @ newline)
   \<and> (\<exists>w' written. update_codemagic_yaml (JStr ''1.2.0'') (JInt 5) example_ci_world = (Inr (), w')
         \<and> files w' = (files example_ci_world)\<lparr>codemagic_yaml := Some (concat written)\<rparr>
         \<and> length written = 3
         \<and> written ! 0 = ''vars:'' @ newline
         \<and> written ! 1 = ''      BUILD_NAME: '' @ dquote @ ''1.2.0'' @ dquote @ newline
         \<and> written ! 2 = ''      BUILD_NUMBER: '' @ dquote @ ''5'' @ dquote @ newline)
   \<and> codemagic_yaml (files example_world) = None
   \<and> update_codemagic_yaml (JStr ''1.2.0'') (JInt 5) example_world =
        (Inr (), \<lparr>files = example_files, trace = [Exists ''codemagic.yaml'']\<rparr>)"
proof -
  let ?T = "''name: app'' @ newline @ ''version: 1.0.0+1'' @ newline"
  let ?C = "''vars:'' @ newline @ ''  BUILD_NAME: x'' @ newline @ ''  BUILD_NUMBER: y'' @ newline"
  have p: "pubspec_yaml (files example_world) = Some ?T"
    by (simp add: example_world_def example_files_def)
  have c: "codemagic_yaml (files example_ci_world) = Some ?C"
    by (simp add: example_ci_world_def example_world_def example_files_def)
  have n: "codemagic_yaml (files example_world) = None"
    by (simp add: example_world_def example_files_def)
  have linesT: "readlines ?T = [''name: app'' @ newline, ''version: 1.0.0+1'' @ newline]"
    by (simp add: newline_def)
  have linesC: "readlines ?C =
      [''vars:'' @ newline, ''  BUILD_NAME: x'' @ newline, ''  BUILD_NUMBER: y'' @ newline]"
    by (simp add: newline_def)
  have m: "\<not> startswith (''name: app'' @ newline) ''version:''"
    "startswith (''version: 1.0.0+1'' @ newline) ''version:''"
    "\<not> contains ''BUILD_NAME'' (''vars:'' @ newline)"
    "\<not> contains ''BUILD_NUMBER'' (''vars:'' @ newline)"
    "contains ''BUILD_NAME'' (''  BUILD_NAME: x'' @ newline)"
    "\<not> contains ''BUILD_NAME'' (''  BUILD_NUMBER: y'' @ newline)"
    "contains ''BUILD_NUMBER'' (''  BUILD_NUMBER: y'' @ newline)"
    by (simp_all add: startswith_def contains_def newline_def sublist_code)
  have v: "version_line (JStr ''1.2.0'') (JInt 5) = ''version: 1.2.0+5'' @ newline"
    "build_name_line (JStr ''1.2.0'') = ''      BUILD_NAME: '' @ dquote @ ''1.2.0'' @ dquote @ newline"
    "build_number_line (JInt 5) = ''      BUILD_NUMBER: '' @ dquote @ ''5'' @ dquote @ newline"
    by (simp_all add: version_line_def build_name_line_def build_number_line_def str_int_def)
  note frame = patchers_frame [of example_world ?T "JStr ''1.2.0''" "JInt 5"]
  note frame_ci = patchers_frame [of example_ci_world ?C "JStr ''1.2.0''" "JInt 5"]
  from frame [THEN conjunct1, rule_format, OF p]
  obtain w' written where run: "update_pubspec_yaml (JStr ''1.2.0'') (JInt 5) example_world = (Inr (), w')"
    and f: "files w' = (files example_world)\<lparr>pubspec_yaml := Some (concat written)\<rparr>"
    and l: "length written = length (readlines ?T)"
    and w: "\<forall>i < length written. written ! i =
               (if startswith (readlines ?T ! i) ''version:''
                then version_line (JStr ''1.2.0'') (JInt 5) else readlines ?T ! i)"
    by (elim exE conjE)
  have l2: "length written = 2"
    using l by (simp only: linesT) simp
  have w0: "written ! 0 = ''name: app'' @ newline"
    using w [rule_format, of 0] l2 m(1) by (simp only: linesT) simp
  have w1: "written ! 1 = ''version: 1.2.0+5'' @ newline"
    using w [rule_format, of 1] l2 m(2) v(1) by (simp only: linesT) simp
  have ex1: "\<exists>w' written. update_pubspec_yaml (JStr ''1.2.0'') (JInt 5) example_world = (Inr (), w')
         \<and> files w' = example_files\<lparr>pubspec_yaml := Some (concat written)\<rparr>
         \<and> length written = 2
         \<and> written ! 0 = ''name: app'' @ newline
         \<and> written ! 1 = ''version: 1.2.0+5'' @ newline"
    using run f l2 w0 w1
    by (intro exI [of _ w'] exI [of _ written]) (simp add: example_world_def)
  from frame_ci [THEN conjunct2, THEN conjunct1, rule_format, OF c]
  obtain u' lines where run': "update_codemagic_yaml (JStr ''1.2.0'') (JInt 5) example_ci_world = (Inr (), u')"
    and f': "files u' = (files example_ci_world)\<lparr>codemagic_yaml := Some (concat lines)\<rparr>"
    and l': "length lines = length (readlines ?C)"
    and w': "\<forall>i < length lines. lines ! i =
               (if contains ''BUILD_NAME'' (readlines ?C ! i) then build_name_line (JStr ''1.2.0'')
                else if contains ''BUILD_NUMBER'' (readlines ?C ! i)
                  then build_number_line (JInt 5)
                else readlines ?C ! i)"
    by (elim exE conjE)
  have l3: "length lines = 3"
    using l' by (simp only: linesC) simp
  have u0: "lines ! 0 = ''vars:'' @ newline"
    using w' [rule_format, of 0] l3 m(3) m(4) by (simp only: linesC) simp
  have u1: "lines ! 1 = ''      BUILD_NAME: '' @ dquote @ ''1.2.0'' @ dquote @ newline"
    using w' [rule_format, of 1] l3 m(5) v(2) by (simp only: linesC) simp
  have u2: "lines ! 2 = ''      BUILD_NUMBER: '' @ dquote @ ''5'' @ dquote @ newline"
    using w' [rule_format, of 2] l3 m(6) m(7) v(3) by (simp only: linesC) simp
  have ex2: "\<exists>w' written. update_codemagic_yaml (JStr ''1.2.0'') (JInt 5) example_ci_world = (Inr (), w')
         \<and> files w' = (files example_ci_world)\<lparr>codemagic_yaml := Some (concat written)\<rparr>
         \<and> length written = 3
         \<and> written ! 0 = ''vars:'' @ newline
         \<and> written ! 1 = ''      BUILD_NAME: '' @ dquote @ ''1.2.0'' @ dquote @ newline
         \<and> written ! 2 = ''      BUILD_NUMBER: '' @ dquote @ ''5'' @ dquote @ newline"
    using run' f' l3 u0 u1 u2
    by (intro exI [of _ u'] exI [of _ lines]) simp
  have silent: "update_codemagic_yaml (JStr ''1.2.0'') (JInt 5) example_world =
        (Inr (), \<lparr>files = example_files, trace = [Exists ''codemagic.yaml'']\<rparr>)"
    using frame [THEN conjunct2, THEN conjunct2, rule_format, OF n]
    by (simp add: example_world_def)
  show ?thesis
    by (intro conjI p ex1 c ex2 n silent)
qed

section \<open>Bumping every pair\<close>

text \<open>
  Claim C4. On a stored document that is complete, \<open>bump-all\<close> returns normally and the
  document it has stored holds, for every supported flavor and platform, the build
  number of the input document plus one. The version store is written once: the write
  is the last thing the workflow does before its closing message, and nothing before
  it writes the store.
\<close>

theorem bump_all_increments:
  assumes "complete_doc D" and "version_json (files w) = Some D"
  shows "\<exists>w' D' evs. handle_bump_all E w = (Inr (), w')
      \<and> version_json (files w') = Some D'
      \<and> (\<forall>f\<in>set SUPPORTED_FLAVORS. \<forall>p\<in>set SUPPORTED_PLATFORMS.
            \<exists>n. build_number_of D f p = Inr (JInt n)
              \<and> build_number_of D' f p = Inr (JInt (n + 1)))
      \<and> trace w' = trace w @ [Exists VERSION_FILE_PATH, Read VERSION_FILE_PATH] @ evs
           @ [Write VERSION_FILE_PATH,
              Print (package_sign @ '' All versions bumped and saved to version.json'')]
      \<and> Write VERSION_FILE_PATH \<notin> set evs"
proof -
  from handle_bump_all_ok [OF assms, of E] obtain D' w' evs
    where run: "handle_bump_all E w = (Inr (), w')"
      and ver: "version_json (files w') = Some D'"
      and num: "\<forall>g p. build_number_of D' g p =
            (if g \<in> set SUPPORTED_FLAVORS \<and> p \<in> set SUPPORTED_PLATFORMS
             then bnd (build_number_of D g p) py_add1
             else build_number_of D g p)"
      and tr: "trace w' = trace w @ [Exists VERSION_FILE_PATH, Read VERSION_FILE_PATH] @ evs
           @ [Write VERSION_FILE_PATH,
              Print (package_sign @ '' All versions bumped and saved to version.json'')]"
      and nw: "Write VERSION_FILE_PATH \<notin> set evs"
    by (elim exE conjE)
  have each: "\<exists>n. build_number_of D f p = Inr (JInt n)
      \<and> build_number_of D' f p = Inr (JInt (n + 1))"
    if f: "f \<in> set SUPPORTED_FLAVORS" and p: "p \<in> set SUPPORTED_PLATFORMS" for f p
  proof -
    from assms(1) f p obtain n where n: "build_number_of D f p = Inr (JInt n)"
      by (auto simp add: complete_doc_def has_build_number_iff)
    have "build_number_of D' f p = Inr (JInt (n + 1))"
      using num [rule_format, of f p] f p n by (simp add: bnd_Inr)
    with n show ?thesis by simp
  qed
  show ?thesis
    apply (rule exI [of _ w'], rule exI [of _ D'], rule exI [of _ evs])
    apply (intro conjI ballI)
        apply (rule run)
       apply (rule ver)
      apply (erule (1) each)
     apply (rule tr)
    apply (rule nw)
    done
qed

theorem bump_all_increments_witness:
  "complete_doc example_doc \<and> version_json (files example_world) = Some example_doc
   \<and> build_number_of example_doc ''workplacebyls'' ''android'' = Inr (JInt 5)
   \<and> build_number_of example_doc ''tiabytsp'' ''ios'' = Inr (JInt 5)
   \<and> (\<exists>w' D' evs. handle_bump_all example_env example_world = (Inr (), w')
        \<and> version_json (files w') = Some D'
        \<and> build_number_of D' ''workplacebyls'' ''android'' = Inr (JInt 6)
        \<and> build_number_of D' ''tiabytsp'' ''ios'' = Inr (JInt 6)
        \<and> trace w' = [Exists VERSION_FILE_PATH, Read VERSION_FILE_PATH] @ evs
             @ [Write VERSION_FILE_PATH,
                Print (package_sign @ '' All versions bumped and saved to version.json'')]
        \<and> Write VERSION_FILE_PATH \<notin> set evs)"
proof -
  have c: "complete_doc example_doc"
    by (rule example_doc_complete)
  have v: "version_json (files example_world) = Some example_doc"
    by (rule example_doc_reads(5))
  have t: "build_number_of example_doc ''tiabytsp'' ''ios'' = Inr (JInt 5)"
    by (rule example_doc_reads(8))
  from bump_all_increments [OF c v, of example_env] obtain w' D' evs
    where run: "handle_bump_all example_env example_world = (Inr (), w')"
      and ver: "version_json (files w') = Some D'"
      and num: "\<forall>f\<in>set SUPPORTED_FLAVORS. \<forall>p\<in>set SUPPORTED_PLATFORMS.
            \<exists>n. build_number_of example_doc f p = Inr (JInt n)
              \<and> build_number_of D' f p = Inr (JInt (n + 1))"
      and tr: "trace w' = trace example_world
           @ [Exists VERSION_FILE_PATH, Read VERSION_FILE_PATH] @ evs
           @ [Write VERSION_FILE_PATH,
              Print (package_sign @ '' All versions bumped and saved to version.json'')]"
      and nw: "Write VERSION_FILE_PATH \<notin> set evs"
    by (elim exE conjE)
  have a: "build_number_of D' ''workplacebyls'' ''android'' = Inr (JInt 6)"
    using num [rule_format, OF example_doc_reads(6) example_doc_reads(7)] example_doc_reads(1)
    by auto
  have b: "build_number_of D' ''tiabytsp'' ''ios'' = Inr (JInt 6)"
    using num [rule_format, OF example_doc_reads(9) example_doc_reads(10)] t
    by auto
  have tr': "trace w' = [Exists VERSION_FILE_PATH, Read VERSION_FILE_PATH] @ evs
             @ [Write VERSION_FILE_PATH,
                Print (package_sign @ '' All versions bumped and saved to version.json'')]"
    using tr by (simp add: example_world_def)
  have ex: "\<exists>w' D' evs. handle_bump_all example_env example_world = (Inr (), w')
        \<and> version_json (files w') = Some D'
        \<and> build_number_of D' ''workplacebyls'' ''android'' = Inr (JInt 6)
        \<and> build_number_of D' ''tiabytsp'' ''ios'' = Inr (JInt 6)
        \<and> trace w' = [Exists VERSION_FILE_PATH, Read VERSION_FILE_PATH] @ evs
             @ [Write VERSION_FILE_PATH,
                Print (package_sign @ '' All versions bumped and saved to version.json'')]
        \<and> Write VERSION_FILE_PATH \<notin> set evs"
    by (rule exI [of _ w'], rule exI [of _ D'], rule exI [of _ evs])
      (intro conjI run ver a b tr' nw)
  show ?thesis
    by (intro conjI c v example_doc_reads(1) t ex)
qed

section \<open>Releasing one pair\<close>

text \<open>
  Claim C1. Take a release of one flavor and platform that runs to its end, on a store
  whose build number for the pair is the integer \<open>n\<close>. The packaging tool has been run
  with \<open>--build-number=n\<close>, the number as stored before the run. After that, and after
  the upload, the workflow has written the version store, appended to the changelog and
  printed its closing message, in this order and as its last three steps: the stored
  document holds \<open>n + 1\<close> for the pair, and the changelog ends with the entry for
  \<open>n + 1\<close>. This holds for every flavor and platform, the supported ones among them.
\<close>

theorem release_ships_stored_number:
  assumes "version_json (files w) = Some D"
    and "build_number_of D flavor platform = Inr (JInt n)"
    and "build_name_of D flavor = Inr name"
    and "handle_release E [flavor, platform] w = (Inr (), w')"
  shows "\<exists>pre post D' old.
      trace w' = trace w @ pre @
          [Run [''shorebird'', ''release'', platform, ''--flutter-version=3.29.1'',
            ''--flavor'', flavor, ''-t'', ''lib/main_'' @ flavor @ ''.dart'',
            ''--build-name='' @ py_str name, ''--build-number='' @ str_int n] False] @ post @
          [Write VERSION_FILE_PATH, Append CHANGELOG_FILE_PATH,
           Print (check_mark @ '' Released and bumped to '' @ py_str name @ ''+''
             @ str_int (n + 1))]
      \<and> version_json (files w') = Some D'
      \<and> build_number_of D' flavor platform = Inr (JInt (n + 1))
      \<and> changelog_md (files w') =
           Some (old @ changelog_entry (now E (length (trace w') - 2)) flavor platform name
             (JInt (n + 1)))"
proof -
  from handle_release_normal [OF assms] obtain new D' pre post old
    where new: "py_add1 (JInt n) = Inr new"
      and D': "set_build_number D flavor platform new = Inr D'"
      and tr: "trace w' = trace w @ pre @
          [Run [''shorebird'', ''release'', platform, ''--flutter-version=3.29.1'',
            ''--flavor'', flavor, ''-t'', ''lib/main_'' @ flavor @ ''.dart'',
            ''--build-name='' @ py_str name, ''--build-number='' @ py_str (JInt n)] False]
          @ post @
          [Write VERSION_FILE_PATH, Append CHANGELOG_FILE_PATH,
           Print (check_mark @ '' Released and bumped to '' @ py_str name @ ''+''
             @ py_str new)]"
      and ver: "version_json (files w') = Some D'"
      and log: "changelog_md (files w') =
           Some (old @ changelog_entry (now E (length (trace w') - 2)) flavor platform name new)"
    by (elim exE conjE)
  from new have new': "new = JInt (n + 1)" by simp
  have num: "build_number_of D' flavor platform = Inr (JInt (n + 1))"
    using set_build_number_reads(1) [OF D'] by (simp add: new')
  show ?thesis
    apply (rule exI [of _ pre], rule exI [of _ post], rule exI [of _ D'], rule exI [of _ old])
    apply (intro conjI)
       apply (simp add: tr new')
      apply (rule ver)
     apply (rule num)
    apply (simp add: log new')
    done
qed

theorem release_ships_stored_number_witness:
  "version_json (files example_world) = Some example_doc
   \<and> build_number_of example_doc ''workplacebyls'' ''android'' = Inr (JInt 5)
   \<and> build_name_of example_doc ''workplacebyls'' = Inr (JStr ''1.2.0'')
   \<and> fst (handle_release example_env [''workplacebyls'', ''android''] example_world) = Inr ()
   \<and> (\<exists>pre post D' old.
        trace (snd (handle_release example_env [''workplacebyls'', ''android''] example_world)) =
          pre @
          [Run [''shorebird'', ''release'', ''android'', ''--flutter-version=3.29.1'',
            ''--flavor'', ''workplacebyls'', ''-t'', ''lib/main_workplacebyls.dart'',
            ''--build-name=1.2.0'', ''--build-number=5''] False] @ post @
          [Write VERSION_FILE_PATH, Append CHANGELOG_FILE_PATH,
           Print (check_mark @ '' Released and bumped to 1.2.0+6'')]
      \<and> version_json (files (snd (handle_release example_env [''workplacebyls'', ''android'']
            example_world))) = Some D'
      \<and> build_number_of D' ''workplacebyls'' ''android'' = Inr (JInt 6)
      \<and> changelog_md (files (snd (handle_release example_env [''workplacebyls'', ''android'']
            example_world))) =
           Some (old @ ''- [2025-01-01] workplacebyls (android): 1.2.0+6'' @ newline))"
proof -
  let ?r = "handle_release example_env [''workplacebyls'', ''android''] example_world"
  have ok: "fst ?r = Inr ()"
    by code_simp
  then have run: "?r = (Inr (), snd ?r)"
    by (cases ?r) simp
  from release_ships_stored_number [OF example_doc_reads(5) example_doc_reads(1)
      example_doc_reads(3) run]
  obtain pre post D' old
    where tr: "trace (snd ?r) = trace example_world @ pre @
          [Run [''shorebird'', ''release'', ''android'', ''--flutter-version=3.29.1'',
            ''--flavor'', ''workplacebyls'', ''-t'', ''lib/main_'' @ ''workplacebyls'' @ ''.dart'',
            ''--build-name='' @ py_str (JStr ''1.2.0''), ''--build-number='' @ str_int 5] False]
          @ post @
          [Write VERSION_FILE_PATH, Append CHANGELOG_FILE_PATH,
           Print (check_mark @ '' Released and bumped to '' @ py_str (JStr ''1.2.0'') @ ''+''
             @ str_int (5 + 1))]"
      and ver: "version_json (files (snd ?r)) = Some D'"
      and num: "build_number_of D' ''workplacebyls'' ''android'' = Inr (JInt (5 + 1))"
      and log: "changelog_md (files (snd ?r)) =
           Some (old @ changelog_entry (now example_env (length (trace (snd ?r)) - 2))
             ''workplacebyls'' ''android'' (JStr ''1.2.0'') (JInt (5 + 1)))"
    by (elim exE conjE)
  have s: "str_int 5 = ''5''" "str_int (5 + 1) = ''6''"
    by (simp_all add: str_int_def)
  have s6: "str_int 6 = ''6''"
    by (simp add: str_int_def)
  have nowE: "now example_env k = ''2025-01-01''" for k
    by (simp add: example_env_def)
  have e: "trace example_world = []"
    by (simp add: example_world_def)
  have tr': "trace (snd ?r) = pre @
          [Run [''shorebird'', ''release'', ''android'', ''--flutter-version=3.29.1'',
            ''--flavor'', ''workplacebyls'', ''-t'', ''lib/main_workplacebyls.dart'',
            ''--build-name=1.2.0'', ''--build-number=5''] False] @ post @
          [Write VERSION_FILE_PATH, Append CHANGELOG_FILE_PATH,
           Print (check_mark @ '' Released and bumped to 1.2.0+6'')]"
    using tr unfolding s e by simp
  have num': "build_number_of D' ''workplacebyls'' ''android'' = Inr (JInt 6)"
    using num by simp
  have log': "changelog_md (files (snd ?r)) =
      Some (old @ ''- [2025-01-01] workplacebyls (android): 1.2.0+6'' @ newline)"
    using log by (simp add: changelog_entry_def nowE s6)
  have ex: "\<exists>pre post D' old.
        trace (snd ?r) =
          pre @
          [Run [''shorebird'', ''release'', ''android'', ''--flutter-version=3.29.1'',
            ''--flavor'', ''workplacebyls'', ''-t'', ''lib/main_workplacebyls.dart'',
            ''--build-name=1.2.0'', ''--build-number=5''] False] @ post @
          [Write VERSION_FILE_PATH, Append CHANGELOG_FILE_PATH,
           Print (check_mark @ '' Released and bumped to 1.2.0+6'')]
      \<and> version_json (files (snd ?r)) = Some D'
      \<and> build_number_of D' ''workplacebyls'' ''android'' = Inr (JInt 6)
      \<and> changelog_md (files (snd ?r)) =
           Some (old @ ''- [2025-01-01] workplacebyls (android): 1.2.0+6'' @ newline)"
    by (rule exI [of _ pre], rule exI [of _ post], rule exI [of _ D'], rule exI [of _ old])
      (intro conjI tr' ver num' log')
  show ?thesis
    by (intro conjI example_doc_reads(5) example_doc_reads(1) example_doc_reads(3) ok ex)
qed

section \<open>Releasing every pair\<close>



section \<open>Exit codes of the external programs\<close>

text \<open>
  Claim C6. Whatever exit codes the packaging tool and the upload tool end with, a
  release does the same: with the exit codes changed in any way, the workflow raises
  the same exception or returns as before, leaves the same files and does the same
  things in the same order; only printed text can differ. So when a release runs to its
  end with some exit codes, it runs to its end with all others: the process ends with
  status 0, the stored document holds the build number plus one and the changelog ends
  with the entry for it.
\<close>

theorem release_ignores_exit_codes:
  "fst (handle_release (with_codes rc E) args w) = fst (handle_release E args w)
   \<and> files (snd (handle_release (with_codes rc E) args w)) = files (snd (handle_release E args w))
   \<and> list_all2 same_event (trace (snd (handle_release (with_codes rc E) args w)))
        (trace (snd (handle_release E args w)))
   \<and> (version_json (files w) = Some D
        \<and> build_number_of D flavor platform = Inr (JInt n)
        \<and> build_name_of D flavor = Inr name
        \<and> handle_release E [flavor, platform] w = (Inr (), w') \<longrightarrow>
      (\<exists>w'' D' old. handle_release (with_codes rc E) [flavor, platform] w = (Inr (), w'')
         \<and> exit_status (fst (handle_release (with_codes rc E) [flavor, platform] w)) = 0
         \<and> version_json (files w'') = Some D'
         \<and> build_number_of D' flavor platform = Inr (JInt (n + 1))
         \<and> changelog_md (files w'') =
              Some (old @ changelog_entry (now E (length (trace w'') - 2)) flavor platform name
                (JInt (n + 1)))))"
proof -
  have sim: "agree (snd (handle_release (with_codes rc E) a w)) (snd (handle_release E a w))"
    "rel_sum (=) (=) (fst (handle_release (with_codes rc E) a w)) (fst (handle_release E a w))"
    for a
    using similarD [OF similar_handle_release agree_refl, of rc E a w] by simp_all
  have same: "fst (handle_release (with_codes rc E) a w) = fst (handle_release E a w)" for a
    using sim(2) [of a] by (simp add: sum.rel_eq)
  have persists: "\<exists>w'' D' old. handle_release (with_codes rc E) [flavor, platform] w = (Inr (), w'')
         \<and> exit_status (fst (handle_release (with_codes rc E) [flavor, platform] w)) = 0
         \<and> version_json (files w'') = Some D'
         \<and> build_number_of D' flavor platform = Inr (JInt (n + 1))
         \<and> changelog_md (files w'') =
              Some (old @ changelog_entry (now E (length (trace w'') - 2)) flavor platform name
                (JInt (n + 1)))"
    if D: "version_json (files w) = Some D"
      and n: "build_number_of D flavor platform = Inr (JInt n)"
      and name: "build_name_of D flavor = Inr name"
      and run: "handle_release E [flavor, platform] w = (Inr (), w')"
  proof -
    let ?r = "handle_release (with_codes rc E) [flavor, platform] w"
    have ok: "fst ?r = Inr ()"
      using same [of "[flavor, platform]"] run by simp
    then have run': "?r = (Inr (), snd ?r)"
      by (cases ?r) simp
    from handle_release_normal [OF D n name run'] obtain new D' pre post old
      where new: "py_add1 (JInt n) = Inr new"
        and D': "set_build_number D flavor platform new = Inr D'"
        and ver: "version_json (files (snd ?r)) = Some D'"
        and log: "changelog_md (files (snd ?r)) =
           Some (old @ changelog_entry (now (with_codes rc E) (length (trace (snd ?r)) - 2))
             flavor platform name new)"
      by (elim exE conjE)
    from new have new': "new = JInt (n + 1)" by simp
    have num: "build_number_of D' flavor platform = Inr (JInt (n + 1))"
      using set_build_number_reads(1) [OF D'] by (simp add: new')
    show ?thesis
      apply (rule exI [of _ "snd ?r"], rule exI [of _ D'], rule exI [of _ old])
      apply (intro conjI)
          apply (rule run')
         apply (simp add: ok)
        apply (rule ver)
       apply (rule num)
      apply (simp add: log new' now_with_codes)
      done
  qed
  show ?thesis
    apply (intro conjI impI)
       apply (rule same)
      apply (rule agree_files [OF sim(1)])
     apply (rule sim(1) [unfolded agree_def, THEN conjunct2])
    apply (elim conjE)
    apply (erule (3) persists)
    done
qed

theorem release_ignores_exit_codes_witness:
  "version_json (files example_upload_world) = Some example_doc
   \<and> build_number_of example_doc ''workplacebyls'' ''android'' = Inr (JInt 5)
   \<and> build_name_of example_doc ''workplacebyls'' = Inr (JStr ''1.2.0'')
   \<and> fst (handle_release example_env [''workplacebyls'', ''android''] example_upload_world) = Inr ()
   \<and> fst (handle_release (with_codes (\<lambda>_ _. 1) example_env) [''workplacebyls'', ''android'']
        example_upload_world) = Inr ()
   \<and> exit_status (fst (handle_release (with_codes (\<lambda>_ _. 1) example_env)
        [''workplacebyls'', ''android''] example_upload_world)) = 0
   \<and> files (snd (handle_release (with_codes (\<lambda>_ _. 1) example_env)
        [''workplacebyls'', ''android''] example_upload_world)) =
      files (snd (handle_release example_env [''workplacebyls'', ''android''] example_upload_world))
   \<and> (\<exists>D' old. version_json (files (snd (handle_release (with_codes (\<lambda>_ _. 1) example_env)
           [''workplacebyls'', ''android''] example_upload_world))) = Some D'
        \<and> build_number_of D' ''workplacebyls'' ''android'' = Inr (JInt 6)
        \<and> changelog_md (files (snd (handle_release (with_codes (\<lambda>_ _. 1) example_env)
             [''workplacebyls'', ''android''] example_upload_world))) =
           Some (old @ ''- [2025-01-01] workplacebyls (android): 1.2.0+6'' @ newline))
   \<and> Print (check_mark @ '' Uploaded to Google Play Store'')
        \<in> set (trace (snd (handle_release example_env [''workplacebyls'', ''android'']
             example_upload_world)))
   \<and> Print (cross_mark @ '' Google Play upload failed'')
        \<in> set (trace (snd (handle_release (with_codes (\<lambda>_ _. 1) example_env)
             [''workplacebyls'', ''android''] example_upload_world)))"
proof -
  let ?r = "handle_release example_env [''workplacebyls'', ''android''] example_upload_world"
  let ?q = "handle_release (with_codes (\<lambda>_ _. 1) example_env) [''workplacebyls'', ''android'']
        example_upload_world"
  have v: "version_json (files example_upload_world) = Some example_doc"
    by (simp add: example_upload_world_def example_world_def example_files_def)
  have ok: "fst ?r = Inr ()"
    by code_simp
  then have run: "?r = (Inr (), snd ?r)"
    by (cases ?r) simp
  have good: "Print (check_mark @ '' Uploaded to Google Play Store'') \<in> set (trace (snd ?r))"
    by code_simp
  have bad: "Print (cross_mark @ '' Google Play upload failed'') \<in> set (trace (snd ?q))"
    by code_simp
  note all = release_ignores_exit_codes [of "\<lambda>_ _. 1" example_env
      "[''workplacebyls'', ''android'']" example_upload_world example_doc
      "''workplacebyls''" "''android''" 5 "JStr ''1.2.0''" "snd ?r"]
  have same: "fst ?q = fst ?r"
    by (rule all [THEN conjunct1])
  have fs: "files (snd ?q) = files (snd ?r)"
    by (rule all [THEN conjunct2, THEN conjunct1])
  from all [THEN conjunct2, THEN conjunct2, THEN conjunct2, rule_format,
      OF conjI [OF v conjI [OF example_doc_reads(1) conjI [OF example_doc_reads(3) run]]]]
  obtain w'' D' old where q: "?q = (Inr (), w'')"
    and status: "exit_status (fst ?q) = 0"
    and ver: "version_json (files w'') = Some D'"
    and num: "build_number_of D' ''workplacebyls'' ''android'' = Inr (JInt (5 + 1))"
    and log: "changelog_md (files w'') =
        Some (old @ changelog_entry (now example_env (length (trace w'') - 2))
          ''workplacebyls'' ''android'' (JStr ''1.2.0'') (JInt (5 + 1)))"
    by (elim exE conjE)
  have w'': "w'' = snd ?q"
    using q by simp
  have s6: "str_int 6 = ''6''"
    by (simp add: str_int_def)
  have nowE: "now example_env k = ''2025-01-01''" for k
    by (simp add: example_env_def)
  have okq: "fst ?q = Inr ()"
    using same ok by simp
  have num': "build_number_of D' ''workplacebyls'' ''android'' = Inr (JInt 6)"
    using num by simp
  have log': "changelog_md (files (snd ?q)) =
      Some (old @ ''- [2025-01-01] workplacebyls (android): 1.2.0+6'' @ newline)"
    using log unfolding w'' by (simp add: changelog_entry_def nowE s6)
  have ex: "\<exists>D' old. version_json (files (snd ?q)) = Some D'
        \<and> build_number_of D' ''workplacebyls'' ''android'' = Inr (JInt 6)
        \<and> changelog_md (files (snd ?q)) =
           Some (old @ ''- [2025-01-01] workplacebyls (android): 1.2.0+6'' @ newline)"
    by (rule exI [of _ D'], rule exI [of _ old]) (intro conjI ver [unfolded w''] num' log')
  show ?thesis
    by (intro conjI v example_doc_reads(1) example_doc_reads(3) ok okq status fs ex good bad)
qed

end
